theory Spec2Isabelle
  imports Complex_Main "HOL-Library.Sublist"
begin

section \<open>Python values, exceptions and the world the driver runs in\<close>

text \<open>
  The repository's one source file is the sweep driver \<open>pcie_bw_gradio_ui.py\<close>. It
  imports the package \<open>model\<close> (modules \<open>pcie\<close>, \<open>eth\<close>, \<open>mem_bw\<close>, \<open>simple_nic\<close>,
  \<open>niantic\<close>), whose code is not part of the source tree. The driver is embedded as it is
  written; the functions of the package are a parameter of the embedding (record \<open>model\<close>).
  Python floats are idealised as reals.
\<close>

datatype error =
    ConfigurationError
  | InvalidSizeError
  | ValueError
  | FileExistsError
  | OtherError string

text \<open>An attribute whose Python type the driver does not fix: a string or an integer.\<close>

datatype pyval = PyStr string | PyInt int

subsection \<open>\<open>int(s)\<close> and \<open>str(i)\<close> on decimal strings\<close>

definition is_digit :: "char \<Rightarrow> bool" where
  "is_digit c = (48 \<le> (of_char c :: nat) \<and> (of_char c :: nat) \<le> 57)"

definition digit_val :: "char \<Rightarrow> int" where
  "digit_val c = int (of_char c) - 48"

text \<open>
  A character is a code point below 256. The whitespace \<open>int()\<close> strips from both ends:
  space and tab to carriage return, and of the code points from 128 on the two Unicode
  spaces, next line (133) and no-break space (160).
\<close>

definition is_space :: "char \<Rightarrow> bool" where
  "is_space c =
     ((of_char c :: nat) = 32 \<or> (9 \<le> (of_char c :: nat) \<and> (of_char c :: nat) \<le> 13)
       \<or> (of_char c :: nat) = 133 \<or> (of_char c :: nat) = 160)"

definition strip :: "string \<Rightarrow> string" where
  "strip s = rev (dropWhile is_space (rev (dropWhile is_space s)))"

text \<open>
  Digits with single underscores between them, as Python's integer literals in \<open>int()\<close>:
  the first and the last character are digits and no two underscores are adjacent.
\<close>

fun digit_groups :: "string \<Rightarrow> bool" where
  "digit_groups [] = False"
| "digit_groups [c] = is_digit c"
| "digit_groups (c # d # cs) =
     (is_digit c \<and> (if d = CHR ''_'' then digit_groups cs else digit_groups (d # cs)))"

definition digits_val :: "string \<Rightarrow> int" where
  "digits_val s = foldl (\<lambda>a c. 10 * a + digit_val c) 0 (filter (\<lambda>c. c \<noteq> CHR ''_'') s)"

text \<open>
  The number of digits \<open>int()\<close> accepts by default (\<open>sys.int_info.default_max_str_digits\<close>);
  the sign and the underscores do not count.
\<close>

definition max_str_digits :: nat where
  "max_str_digits = 4300"

definition parse_digits :: "string \<Rightarrow> error + int" where
  "parse_digits ds =
     (if digit_groups ds \<and> length (filter is_digit ds) \<le> max_str_digits
      then Inr (digits_val ds) else Inl ValueError)"

definition py_int :: "string \<Rightarrow> error + int" where
  "py_int s =
     (case strip s of
        [] \<Rightarrow> Inl ValueError
      | c # cs \<Rightarrow>
          if c = CHR ''-'' then map_sum id uminus (parse_digits cs)
          else if c = CHR ''+'' then parse_digits cs
          else parse_digits (c # cs))"

fun str_nat :: "nat \<Rightarrow> string" where
  "str_nat n =
     (if n < 10 then [char_of (48 + n)]
      else str_nat (n div 10) @ [char_of (48 + n mod 10)])"

definition str_int :: "int \<Rightarrow> string" where
  "str_int i = (if i < 0 then CHR ''-'' # str_nat (nat (- i)) else str_nat (nat i))"

fun py_str :: "pyval \<Rightarrow> string" where
  "py_str (PyStr s) = s"
| "py_str (PyInt i) = str_int i"

subsection \<open>The objects of the \<open>model\<close> package that the driver handles\<close>

text \<open>
  \<open>pcie.Cfg\<close>: the driver reads the attributes \<open>version\<close>, \<open>lanes\<close>, \<open>addr\<close>, \<open>ecrc\<close>,
  \<open>mps\<close>, \<open>mrrs\<close>, \<open>rcb\<close>, \<open>TLP_bw\<close> and \<open>RAW_bw\<close> of the object.
\<close>

record pcie_cfg =
  version :: pyval
  lanes :: pyval
  addr :: int
  ecrc :: int
  mps :: int
  mrrs :: int
  rcb :: int
  TLP_bw :: real
  RAW_bw :: real

text \<open>The mode selector of a bandwidth basis: \<open>pcie.BW_Spec.BW_RAW\<close> or the TLP-layer mode.\<close>

datatype bw_mode = BW_RAW | BW_TLP

text \<open>
  Modelled from the spec: the class \<open>pcie.BW_Spec\<close> is not in the source tree. The driver
  calls its constructor with three positional arguments, two bandwidth values and the mode
  selector; the object keeps them as its reference bandwidths (receive and transmit) and
  its mode, immutable thereafter.
\<close>

record bw_spec =
  rx_bw :: real
  tx_bw :: real
  bw_type :: bw_mode

definition BW_Spec :: "real \<Rightarrow> real \<Rightarrow> bw_mode \<Rightarrow> bw_spec" where
  "BW_Spec rx tx t = \<lparr>rx_bw = rx, tx_bw = tx, bw_type = t\<rparr>"

text \<open>
  The result of one overhead computation: the receive-effective and the transmit-effective
  throughput; either may be unset (\<open>None\<close>) for a one-directional transfer.
\<close>

record bw_res =
  rx_eff :: "real option"
  tx_eff :: "real option"

text \<open>\<open>eth.Cfg\<close>: the driver only passes the object back to its own method \<open>bps_ex\<close>.\<close>

record eth_cfg =
  line_rate :: string

datatype direction = DIR_RX | DIR_TX | DIR_BOTH

text \<open>
  The functions of the package the driver calls. Each may raise (\<open>Inl\<close>). \<open>niantic_bw\<close>
  takes the optional keyword argument \<open>h_opt\<close>. \<open>format_2f\<close> is Python's float format
  \<open>:.2f\<close>, a parameter as well.
\<close>

record model =
  pcie_Cfg :: "string \<Rightarrow> string \<Rightarrow> int \<Rightarrow> int \<Rightarrow> int \<Rightarrow> int \<Rightarrow> int \<Rightarrow> error + pcie_cfg"
  eth_Cfg :: "string \<Rightarrow> error + eth_cfg"
  eth_bps_ex :: "eth_cfg \<Rightarrow> int \<Rightarrow> error + real"
  mem_bw_write :: "pcie_cfg \<Rightarrow> bw_spec \<Rightarrow> int \<Rightarrow> error + bw_res"
  mem_bw_read :: "pcie_cfg \<Rightarrow> bw_spec \<Rightarrow> int \<Rightarrow> error + bw_res"
  mem_bw_read_write :: "pcie_cfg \<Rightarrow> bw_spec \<Rightarrow> int \<Rightarrow> error + bw_res"
  simple_nic_bw :: "pcie_cfg \<Rightarrow> bw_spec \<Rightarrow> direction \<Rightarrow> int \<Rightarrow> error + bw_res"
  niantic_bw :: "pcie_cfg \<Rightarrow> bw_spec \<Rightarrow> direction \<Rightarrow> int \<Rightarrow> string option \<Rightarrow> error + bw_res"
  format_2f :: "real \<Rightarrow> string"

subsection \<open>The world: files, temporary names, and the trace of calls into the package\<close>

datatype call =
    Call_pcie_Cfg string string int int int int int
  | Call_eth_Cfg string
  | Call_BW_Spec real real bw_mode
  | Call_mem_write pcie_cfg bw_spec int
  | Call_mem_read pcie_cfg bw_spec int
  | Call_mem_read_write pcie_cfg bw_spec int
  | Call_eth_bps_ex eth_cfg int
  | Call_simple_nic pcie_cfg bw_spec direction int
  | Call_niantic pcie_cfg bw_spec direction int "string option"

text \<open>
  \<open>files\<close> maps a path to the content of the file there. \<open>tmp_names\<close> are the names the
  random name generator of \<open>tempfile\<close> proposes next. \<open>calls\<close> is the trace of the calls
  the driver has made into the package, oldest first.
\<close>

record world =
  files :: "string \<rightharpoonup> string"
  tmp_names :: "string list"
  calls :: "call list"

type_synonym 'a py = "world \<Rightarrow> (error + 'a) \<times> world"

definition returnP :: "'a \<Rightarrow> 'a py" where
  "returnP x = (\<lambda>w. (Inr x, w))"

text \<open>Sequencing with no handler: an exception of the first part ends the whole.\<close>

definition bindP :: "'a py \<Rightarrow> ('a \<Rightarrow> 'b py) \<Rightarrow> 'b py" where
  "bindP m f = (\<lambda>w. case m w of (Inl e, w') \<Rightarrow> (Inl e, w') | (Inr x, w') \<Rightarrow> f x w')"

text \<open>A builtin that may raise and touches nothing.\<close>

definition liftP :: "error + 'a \<Rightarrow> 'a py" where
  "liftP r = (\<lambda>w. (r, w))"

text \<open>A call into the package: recorded in the trace, then its result or its exception.\<close>

definition invoke :: "call \<Rightarrow> error + 'a \<Rightarrow> 'a py" where
  "invoke ev r = (\<lambda>w. (r, w\<lparr>calls := calls w @ [ev]\<rparr>))"

text \<open>
  The calls of the driver into the package: each hands its arguments to the function of
  the package and records the call with these same arguments. \<open>BW_Spec\<close> is the
  constructor modelled above.
\<close>

definition call_pcie_Cfg ::
  "model \<Rightarrow> string \<Rightarrow> string \<Rightarrow> int \<Rightarrow> int \<Rightarrow> int \<Rightarrow> int \<Rightarrow> int \<Rightarrow> pcie_cfg py" where
  "call_pcie_Cfg M v l a e m r c = invoke (Call_pcie_Cfg v l a e m r c) (pcie_Cfg M v l a e m r c)"

definition call_eth_Cfg :: "model \<Rightarrow> string \<Rightarrow> eth_cfg py" where
  "call_eth_Cfg M s = invoke (Call_eth_Cfg s) (eth_Cfg M s)"

definition call_BW_Spec :: "real \<Rightarrow> real \<Rightarrow> bw_mode \<Rightarrow> bw_spec py" where
  "call_BW_Spec rx tx t = invoke (Call_BW_Spec rx tx t) (Inr (BW_Spec rx tx t))"

definition call_mem_write :: "model \<Rightarrow> pcie_cfg \<Rightarrow> bw_spec \<Rightarrow> int \<Rightarrow> bw_res py" where
  "call_mem_write M c b n = invoke (Call_mem_write c b n) (mem_bw_write M c b n)"

definition call_mem_read :: "model \<Rightarrow> pcie_cfg \<Rightarrow> bw_spec \<Rightarrow> int \<Rightarrow> bw_res py" where
  "call_mem_read M c b n = invoke (Call_mem_read c b n) (mem_bw_read M c b n)"

definition call_mem_read_write :: "model \<Rightarrow> pcie_cfg \<Rightarrow> bw_spec \<Rightarrow> int \<Rightarrow> bw_res py" where
  "call_mem_read_write M c b n = invoke (Call_mem_read_write c b n) (mem_bw_read_write M c b n)"

definition call_eth_bps_ex :: "model \<Rightarrow> eth_cfg \<Rightarrow> int \<Rightarrow> real py" where
  "call_eth_bps_ex M e n = invoke (Call_eth_bps_ex e n) (eth_bps_ex M e n)"

definition call_simple_nic ::
  "model \<Rightarrow> pcie_cfg \<Rightarrow> bw_spec \<Rightarrow> direction \<Rightarrow> int \<Rightarrow> bw_res py" where
  "call_simple_nic M c b d n = invoke (Call_simple_nic c b d n) (simple_nic_bw M c b d n)"

definition call_niantic ::
  "model \<Rightarrow> pcie_cfg \<Rightarrow> bw_spec \<Rightarrow> direction \<Rightarrow> int \<Rightarrow> string option \<Rightarrow> bw_res py" where
  "call_niantic M c b d n h = invoke (Call_niantic c b d n h) (niantic_bw M c b d n h)"

text \<open>
  \<open>tempfile.NamedTemporaryFile(delete=False, suffix=...)\<close> inside a \<open>with\<close> block whose
  body only reads the name: the first proposed name whose path is free is created as an
  empty file, the file is closed and, as \<open>delete=False\<close>, stays. With no free name left
  the call raises \<open>FileExistsError\<close>.
\<close>

definition NamedTemporaryFile :: "string \<Rightarrow> string py" where
  "NamedTemporaryFile sfx =
     (\<lambda>w. case dropWhile (\<lambda>n. files w (n @ sfx) \<noteq> None) (tmp_names w) of
             [] \<Rightarrow> (Inl FileExistsError, w\<lparr>tmp_names := []\<rparr>)
           | n # rest \<Rightarrow>
               (Inr (n @ sfx),
                w\<lparr>files := (files w)(n @ sfx \<mapsto> []), tmp_names := rest\<rparr>))"

section \<open>The sweep driver \<open>run_pcie_model\<close>\<close>

subsection \<open>The loop over the gross frame sizes\<close>

text \<open>The eight lists the loop appends to.\<close>

record series =
  sizes :: "int list"
  wr_bw_values :: "real option list"
  rd_bw_values :: "real option list"
  rdwr_bw_values :: "real option list"
  eth_bw_values :: "real list"
  simple_nic_bi_values :: "real option list"
  kernel_nic_bi_values :: "real option list"
  pmd_nic_bi_values :: "real option list"

definition empty_series :: series where
  "empty_series =
     \<lparr>sizes = [], wr_bw_values = [], rd_bw_values = [], rdwr_bw_values = [],
      eth_bw_values = [], simple_nic_bi_values = [], kernel_nic_bi_values = [],
      pmd_nic_bi_values = []\<rparr>"

text \<open>The local variables of one iteration.\<close>

record rowvals =
  wr_bw :: bw_res
  rd_bw :: bw_res
  rdwr_bw :: bw_res
  eth_bw :: real
  simple_nic_bi :: bw_res
  kernel_nic_bi :: bw_res
  pmd_nic_bi :: bw_res

text \<open>The seven calls of the loop body for the gross size \<open>sz\<close>, in the order of the source.\<close>

definition sweep_body :: "model \<Rightarrow> pcie_cfg \<Rightarrow> bw_spec \<Rightarrow> eth_cfg \<Rightarrow> int \<Rightarrow> rowvals py" where
  "sweep_body M pciecfg bwspec ethcfg sz =
     bindP (call_mem_write M pciecfg bwspec (sz - 4)) (\<lambda>wr.
     bindP (call_mem_read M pciecfg bwspec (sz - 4)) (\<lambda>rd.
     bindP (call_mem_read_write M pciecfg bwspec (sz - 4)) (\<lambda>rdwr.
     bindP (call_eth_bps_ex M ethcfg (sz - 4)) (\<lambda>bps.
     bindP (call_simple_nic M pciecfg bwspec DIR_BOTH (sz - 4)) (\<lambda>simple.
     bindP (call_niantic M pciecfg bwspec DIR_BOTH (sz - 4) None) (\<lambda>kernel.
     bindP (call_niantic M pciecfg bwspec DIR_BOTH (sz - 4) (Some ''PMD'')) (\<lambda>pmd.
     returnP \<lparr>wr_bw = wr, rd_bw = rd, rdwr_bw = rdwr,
              eth_bw = bps / (1000 * 1000 * 1000),
              simple_nic_bi = simple, kernel_nic_bi = kernel, pmd_nic_bi = pmd\<rparr>)))))))"

text \<open>The eight appends that end the loop body.\<close>

definition store_values :: "series \<Rightarrow> int \<Rightarrow> rowvals \<Rightarrow> series" where
  "store_values acc sz r =
     \<lparr>sizes = sizes acc @ [sz],
      wr_bw_values = wr_bw_values acc @ [tx_eff (wr_bw r)],
      rd_bw_values = rd_bw_values acc @ [rx_eff (rd_bw r)],
      rdwr_bw_values = rdwr_bw_values acc @ [tx_eff (rdwr_bw r)],
      eth_bw_values = eth_bw_values acc @ [eth_bw r],
      simple_nic_bi_values = simple_nic_bi_values acc @ [tx_eff (simple_nic_bi r)],
      kernel_nic_bi_values = kernel_nic_bi_values acc @ [tx_eff (kernel_nic_bi r)],
      pmd_nic_bi_values = pmd_nic_bi_values acc @ [tx_eff (pmd_nic_bi r)]\<rparr>"

fun sweep :: "model \<Rightarrow> pcie_cfg \<Rightarrow> bw_spec \<Rightarrow> eth_cfg \<Rightarrow> int list \<Rightarrow> series \<Rightarrow> series py" where
  "sweep M pciecfg bwspec ethcfg [] acc = returnP acc"
| "sweep M pciecfg bwspec ethcfg (sz # rest) acc =
     bindP (sweep_body M pciecfg bwspec ethcfg sz) (\<lambda>r.
       sweep M pciecfg bwspec ethcfg rest (store_values acc sz r))"

text \<open>\<open>range(64, 1500 + 1)\<close>.\<close>

definition sweep_sizes :: "int list" where
  "sweep_sizes = [64..1500]"

subsection \<open>The configuration text\<close>

definition config_lines :: "model \<Rightarrow> pcie_cfg \<Rightarrow> string list" where
  "config_lines M pciecfg =
     [''PCIe Config:'',
      ''  Version:    '' @ py_str (version pciecfg),
      ''  Lanes:      '' @ py_str (lanes pciecfg),
      ''  Addr bits:  '' @ str_int (addr pciecfg),
      ''  ECRC:       '' @ str_int (ecrc pciecfg),
      ''  MPS:        '' @ str_int (mps pciecfg),
      ''  MRRS:       '' @ str_int (mrrs pciecfg),
      ''  RCB:        '' @ str_int (rcb pciecfg),
      ''  TLP BW:     '' @ format_2f M (TLP_bw pciecfg) @ '' Gb/s'',
      ''  RAW BW:     '' @ format_2f M (RAW_bw pciecfg) @ '' Gb/s'']"

text \<open>\<open>"\n".join(lines)\<close>.\<close>

fun join_lines :: "string list \<Rightarrow> string" where
  "join_lines [] = []"
| "join_lines [l] = l"
| "join_lines (l # ls) = l @ [CHR 0x0A] @ join_lines ls"

subsection \<open>From the parameters to the series\<close>

text \<open>
  The first part of \<open>run_pcie_model\<close>, up to the loop: the conversions, the two
  configurations, the configuration lines, the bandwidth basis and the temporary file,
  whose name the function never uses again.
\<close>

definition run_setup ::
  "model \<Rightarrow> string \<Rightarrow> string \<Rightarrow> string \<Rightarrow> string \<Rightarrow> string \<Rightarrow> string \<Rightarrow> string \<Rightarrow> string
     \<Rightarrow> (string list \<times> pcie_cfg \<times> eth_cfg \<times> bw_spec) py" where
  "run_setup M pcie_version lanes_s addr_width ecrc_s mps_s mrrs_s rcb_s ethernet_speed =
     bindP (liftP (py_int addr_width)) (\<lambda>addr_i.
     bindP (liftP (py_int ecrc_s)) (\<lambda>ecrc_i.
     bindP (liftP (py_int mps_s)) (\<lambda>mps_i.
     bindP (liftP (py_int mrrs_s)) (\<lambda>mrrs_i.
     bindP (liftP (py_int rcb_s)) (\<lambda>rcb_i.
     bindP (call_pcie_Cfg M pcie_version lanes_s addr_i ecrc_i mps_i mrrs_i rcb_i) (\<lambda>pciecfg.
     let config_info = config_lines M pciecfg in
     bindP (call_eth_Cfg M ethernet_speed) (\<lambda>ethcfg.
     let tlp_bw = TLP_bw pciecfg in
     bindP (call_BW_Spec tlp_bw tlp_bw BW_RAW) (\<lambda>bwspec.
     bindP (NamedTemporaryFile ''.dat'') (\<lambda>data_file.
     returnP (config_info, pciecfg, ethcfg, bwspec))))))))))"

text \<open>The setup followed by the loop: the configuration lines and the eight series.\<close>

definition compute_series ::
  "model \<Rightarrow> string \<Rightarrow> string \<Rightarrow> string \<Rightarrow> string \<Rightarrow> string \<Rightarrow> string \<Rightarrow> string \<Rightarrow> string
     \<Rightarrow> (string list \<times> series) py" where
  "compute_series M pcie_version lanes_s addr_width ecrc_s mps_s mrrs_s rcb_s ethernet_speed =
     bindP (run_setup M pcie_version lanes_s addr_width ecrc_s mps_s mrrs_s rcb_s
              ethernet_speed) (\<lambda>(config_info, pciecfg, ethcfg, bwspec).
     bindP (sweep M pciecfg bwspec ethcfg sweep_sizes empty_series) (\<lambda>ser.
     returnP (config_info, ser)))"

subsection \<open>The table and its sample\<close>

text \<open>A column of a data frame: the sizes are integers, the bandwidths floats or unset.\<close>

datatype column = IntCol "int list" | FloatCol "real option list"

fun col_len :: "column \<Rightarrow> nat" where
  "col_len (IntCol xs) = length xs"
| "col_len (FloatCol xs) = length xs"

record dataframe =
  df_index :: "int list"
  df_columns :: "(string \<times> column) list"

text \<open>
  A dictionary display \<open>{k1: v1, k2: v2, ...}\<close>: a key that comes again replaces the value
  and keeps the place of its first occurrence.
\<close>

fun dict_set :: "(string \<times> 'v) list \<Rightarrow> string \<Rightarrow> 'v \<Rightarrow> (string \<times> 'v) list" where
  "dict_set [] k v = [(k, v)]"
| "dict_set ((k', v') # d) k v = (if k' = k then (k, v) # d else (k', v') # dict_set d k v)"

definition dict_display :: "(string \<times> 'v) list \<Rightarrow> (string \<times> 'v) list" where
  "dict_display kvs = foldl (\<lambda>d (k, v). dict_set d k v) [] kvs"

text \<open>
  \<open>pd.DataFrame(dict)\<close>: one column per key, in the order of the dictionary; columns of
  different lengths raise \<open>ValueError\<close>; the index is \<open>0 .. n - 1\<close>.
\<close>

definition DataFrame :: "(string \<times> column) list \<Rightarrow> error + dataframe" where
  "DataFrame d =
     (case d of
        [] \<Rightarrow> Inr \<lparr>df_index = [], df_columns = []\<rparr>
      | (k, c) # cols \<Rightarrow>
          if list_all (\<lambda>(k', c'). col_len c' = col_len c) cols
          then Inr \<lparr>df_index = [0 .. int (col_len c) - 1], df_columns = d\<rparr>
          else Inl ValueError)"

text \<open>The extended slice \<open>xs[::k]\<close> for a step \<open>k > 0\<close>: the entries at 0, k, 2k, ...\<close>

fun slice_step :: "nat \<Rightarrow> 'a list \<Rightarrow> 'a list" where
  "slice_step k [] = []"
| "slice_step k (x # xs) = x # slice_step k (drop (k - 1) xs)"

fun slice_col :: "nat \<Rightarrow> column \<Rightarrow> column" where
  "slice_col k (IntCol xs) = IntCol (slice_step k xs)"
| "slice_col k (FloatCol xs) = FloatCol (slice_step k xs)"

text \<open>\<open>df.iloc[::k]\<close>: every k-th row, with the index labels the rows had.\<close>

definition iloc_step :: "nat \<Rightarrow> dataframe \<Rightarrow> dataframe" where
  "iloc_step k df =
     \<lparr>df_index = slice_step k (df_index df),
      df_columns = map (\<lambda>(name, c). (name, slice_col k c)) (df_columns df)\<rparr>"

text \<open>\<open>df.reset_index(drop=True)\<close>: the index is renumbered from 0.\<close>

definition reset_index_drop :: "dataframe \<Rightarrow> dataframe" where
  "reset_index_drop df = df\<lparr>df_index := [0 .. int (length (df_index df)) - 1]\<rparr>"

definition make_table :: "series \<Rightarrow> string \<Rightarrow> error + dataframe" where
  "make_table ser ethernet_speed =
     DataFrame (dict_display
       [(''Transfer Size (Bytes)'', IntCol (sizes ser)),
        (''PCIe Write BW (Gb/s)'', FloatCol (wr_bw_values ser)),
        (''PCIe Read BW (Gb/s)'', FloatCol (rd_bw_values ser)),
        (''PCIe Read/Write BW (Gb/s)'', FloatCol (rdwr_bw_values ser)),
        (ethernet_speed @ '' (Gb/s)'', FloatCol (map Some (eth_bw_values ser))),
        (''Simple NIC (Gb/s)'', FloatCol (simple_nic_bi_values ser)),
        (''Modern NIC (kernel driver) (Gb/s)'', FloatCol (kernel_nic_bi_values ser)),
        (''Modern NIC (DPDK driver) (Gb/s)'', FloatCol (pmd_nic_bi_values ser))])"

subsection \<open>The figure\<close>

text \<open>
  A scatter trace and the figure, with the attributes that carry data or text; colours,
  margins and grid settings are left out.
\<close>

record trace =
  tr_x :: "int list"
  tr_y :: "real option list"
  tr_mode :: string
  tr_name :: string
  tr_hovertemplate :: "string option"

record figure =
  fig_traces :: "trace list"
  fig_title :: string
  fig_xaxis_title :: string
  fig_yaxis_title :: string
  fig_xaxis_range :: "(int \<times> int) option"

definition Scatter :: "int list \<Rightarrow> real option list \<Rightarrow> string \<Rightarrow> trace" where
  "Scatter x y name =
     \<lparr>tr_x = x, tr_y = y, tr_mode = ''lines'', tr_name = name, tr_hovertemplate = None\<rparr>"

definition make_figure :: "series \<Rightarrow> string \<Rightarrow> figure" where
  "make_figure ser ethernet_speed =
     (let traces =
        [Scatter (sizes ser) (rdwr_bw_values ser) ''Effective PCIe BW'',
         Scatter (sizes ser) (map Some (eth_bw_values ser)) ethernet_speed,
         Scatter (sizes ser) (simple_nic_bi_values ser) ''Simple NIC'',
         Scatter (sizes ser) (kernel_nic_bi_values ser) ''Modern NIC (kernel driver)'',
         Scatter (sizes ser) (pmd_nic_bi_values ser) ''Modern NIC (DPDK driver)'']
      in \<lparr>fig_traces =
            map (\<lambda>t. t\<lparr>tr_hovertemplate :=
                   Some ''<b>Size</b>: %{x} bytes<br><b>Bandwidth</b>: %{y:.2f} Gb/s''\<rparr>) traces,
          fig_title = ''PCIe and Ethernet Bandwidth Comparison'',
          fig_xaxis_title = ''Transfer Size (Bytes)'',
          fig_yaxis_title = ''Bandwidth (Gb/s)'',
          fig_xaxis_range = Some (64, 1500)\<rparr>)"

subsection \<open>\<open>run_pcie_model\<close>\<close>

text \<open>
  The second part of \<open>run_pcie_model\<close>: the table, its sample of every 64th row, the figure
  and the returned triple.
\<close>

definition present :: "string list \<Rightarrow> series \<Rightarrow> string \<Rightarrow> error + (string \<times> figure \<times> dataframe)" where
  "present config_info ser ethernet_speed =
     (case make_table ser ethernet_speed of
        Inl e \<Rightarrow> Inl e
      | Inr df \<Rightarrow>
          let sampled_df = reset_index_drop (iloc_step 64 df);
              fig = make_figure ser ethernet_speed
          in Inr (join_lines config_info, fig, sampled_df))"

definition run_pcie_model ::
  "model \<Rightarrow> string \<Rightarrow> string \<Rightarrow> string \<Rightarrow> string \<Rightarrow> string \<Rightarrow> string \<Rightarrow> string \<Rightarrow> string
     \<Rightarrow> (string \<times> figure \<times> dataframe) py" where
  "run_pcie_model M pcie_version lanes_s addr_width ecrc_s mps_s mrrs_s rcb_s ethernet_speed =
     bindP (compute_series M pcie_version lanes_s addr_width ecrc_s mps_s mrrs_s rcb_s
              ethernet_speed) (\<lambda>(config_info, ser).
     liftP (present config_info ser ethernet_speed))"

section \<open>Observers used in the statements\<close>

text \<open>The trace of one iteration that runs to its end: seven calls, each with \<open>sz - 4\<close>.\<close>

definition row_calls :: "pcie_cfg \<Rightarrow> bw_spec \<Rightarrow> eth_cfg \<Rightarrow> int \<Rightarrow> call list" where
  "row_calls pciecfg bwspec ethcfg sz =
     [Call_mem_write pciecfg bwspec (sz - 4),
      Call_mem_read pciecfg bwspec (sz - 4),
      Call_mem_read_write pciecfg bwspec (sz - 4),
      Call_eth_bps_ex ethcfg (sz - 4),
      Call_simple_nic pciecfg bwspec DIR_BOTH (sz - 4),
      Call_niantic pciecfg bwspec DIR_BOTH (sz - 4) None,
      Call_niantic pciecfg bwspec DIR_BOTH (sz - 4) (Some ''PMD'')]"

text \<open>The payload argument a per-size call received; \<open>None\<close> for a constructor call.\<close>

fun payload_of :: "call \<Rightarrow> int option" where
  "payload_of (Call_mem_write c b n) = Some n"
| "payload_of (Call_mem_read c b n) = Some n"
| "payload_of (Call_mem_read_write c b n) = Some n"
| "payload_of (Call_eth_bps_ex e n) = Some n"
| "payload_of (Call_simple_nic c b d n) = Some n"
| "payload_of (Call_niantic c b d n h) = Some n"
| "payload_of _ = None"

text \<open>The configuration and the basis a per-size call received.\<close>

fun basis_of :: "call \<Rightarrow> (pcie_cfg \<times> bw_spec) option" where
  "basis_of (Call_mem_write c b n) = Some (c, b)"
| "basis_of (Call_mem_read c b n) = Some (c, b)"
| "basis_of (Call_mem_read_write c b n) = Some (c, b)"
| "basis_of (Call_simple_nic c b d n) = Some (c, b)"
| "basis_of (Call_niantic c b d n h) = Some (c, b)"
| "basis_of _ = None"

text \<open>The exception a recorded call raised, if it raised.\<close>

definition raised :: "error + 'a \<Rightarrow> error option" where
  "raised r = (case r of Inl e \<Rightarrow> Some e | Inr _ \<Rightarrow> None)"

fun outcome :: "model \<Rightarrow> call \<Rightarrow> error option" where
  "outcome M (Call_pcie_Cfg v l a e m r c) = raised (pcie_Cfg M v l a e m r c)"
| "outcome M (Call_eth_Cfg s) = raised (eth_Cfg M s)"
| "outcome M (Call_BW_Spec rx tx t) = None"
| "outcome M (Call_mem_write c b n) = raised (mem_bw_write M c b n)"
| "outcome M (Call_mem_read c b n) = raised (mem_bw_read M c b n)"
| "outcome M (Call_mem_read_write c b n) = raised (mem_bw_read_write M c b n)"
| "outcome M (Call_eth_bps_ex e n) = raised (eth_bps_ex M e n)"
| "outcome M (Call_simple_nic c b d n) = raised (simple_nic_bw M c b d n)"
| "outcome M (Call_niantic c b d n h) = raised (niantic_bw M c b d n h)"

text \<open>The events a run added to the trace.\<close>

definition new_calls :: "world \<Rightarrow> world \<Rightarrow> call list" where
  "new_calls w w' = drop (length (calls w)) (calls w')"

text \<open>The per-size calls among the events of a trace.\<close>

definition size_calls :: "call list \<Rightarrow> call list" where
  "size_calls evs = filter (\<lambda>ev. payload_of ev \<noteq> None) evs"

text \<open>The rows of several iterations stored one after the other.\<close>

definition store_rows :: "series \<Rightarrow> (int \<times> rowvals) list \<Rightarrow> series" where
  "store_rows acc srs = foldl (\<lambda>a (s, r). store_values a s r) acc srs"



text \<open>The events that record a construction of a basis.\<close>

fun is_BW_Spec_call :: "call \<Rightarrow> bool" where
  "is_BW_Spec_call (Call_BW_Spec rx tx t) = True"
| "is_BW_Spec_call _ = False"

text \<open>
  Whether a run gets as far as the temporary file: the five conversions and the two
  configuration constructors all return.
\<close>

definition reaches_tmpfile ::
  "model \<Rightarrow> string \<Rightarrow> string \<Rightarrow> string \<Rightarrow> string \<Rightarrow> string \<Rightarrow> string \<Rightarrow> string \<Rightarrow> string \<Rightarrow> bool" where
  "reaches_tmpfile M pcie_version lanes_s addr_width ecrc_s mps_s mrrs_s rcb_s ethernet_speed =
     (case (py_int addr_width, py_int ecrc_s, py_int mps_s, py_int mrrs_s, py_int rcb_s) of
        (Inr a, Inr e, Inr m, Inr r, Inr c) \<Rightarrow>
          (case pcie_Cfg M pcie_version lanes_s a e m r c of
             Inr cfg \<Rightarrow> (case eth_Cfg M ethernet_speed of Inr ecfg \<Rightarrow> True | Inl x \<Rightarrow> False)
           | Inl x \<Rightarrow> False)
      | _ \<Rightarrow> False)"

text \<open>The proposed temporary names from the first one whose path with the suffix is free.\<close>

definition free_names :: "world \<Rightarrow> string \<Rightarrow> string list" where
  "free_names w sfx = dropWhile (\<lambda>n. files w (n @ sfx) \<noteq> None) (tmp_names w)"

text \<open>
  All seven functions of the loop body return for the gross size \<open>s\<close>, and the values the
  body then holds.
\<close>

definition rows_ok :: "model \<Rightarrow> pcie_cfg \<Rightarrow> bw_spec \<Rightarrow> eth_cfg \<Rightarrow> int \<Rightarrow> bool" where
  "rows_ok M c b e s =
     (\<not> isl (mem_bw_write M c b (s - 4)) \<and> \<not> isl (mem_bw_read M c b (s - 4)) \<and>
      \<not> isl (mem_bw_read_write M c b (s - 4)) \<and> \<not> isl (eth_bps_ex M e (s - 4)) \<and>
      \<not> isl (simple_nic_bw M c b DIR_BOTH (s - 4)) \<and>
      \<not> isl (niantic_bw M c b DIR_BOTH (s - 4) None) \<and>
      \<not> isl (niantic_bw M c b DIR_BOTH (s - 4) (Some ''PMD'')))"

definition row_of :: "model \<Rightarrow> pcie_cfg \<Rightarrow> bw_spec \<Rightarrow> eth_cfg \<Rightarrow> int \<Rightarrow> rowvals" where
  "row_of M c b e s =
     \<lparr>wr_bw = projr (mem_bw_write M c b (s - 4)),
      rd_bw = projr (mem_bw_read M c b (s - 4)),
      rdwr_bw = projr (mem_bw_read_write M c b (s - 4)),
      eth_bw = projr (eth_bps_ex M e (s - 4)) / 1000000000,
      simple_nic_bi = projr (simple_nic_bw M c b DIR_BOTH (s - 4)),
      kernel_nic_bi = projr (niantic_bw M c b DIR_BOTH (s - 4) None),
      pmd_nic_bi = projr (niantic_bw M c b DIR_BOTH (s - 4) (Some ''PMD''))\<rparr>"

text \<open>The eight series as functions of the list of sizes, when every call returns.\<close>

definition series_of :: "model \<Rightarrow> pcie_cfg \<Rightarrow> bw_spec \<Rightarrow> eth_cfg \<Rightarrow> int list \<Rightarrow> series" where
  "series_of M c b e szs =
     \<lparr>sizes = szs,
      wr_bw_values = map (\<lambda>s. tx_eff (projr (mem_bw_write M c b (s - 4)))) szs,
      rd_bw_values = map (\<lambda>s. rx_eff (projr (mem_bw_read M c b (s - 4)))) szs,
      rdwr_bw_values = map (\<lambda>s. tx_eff (projr (mem_bw_read_write M c b (s - 4)))) szs,
      eth_bw_values = map (\<lambda>s. projr (eth_bps_ex M e (s - 4)) / 1000000000) szs,
      simple_nic_bi_values = map (\<lambda>s. tx_eff (projr (simple_nic_bw M c b DIR_BOTH (s - 4)))) szs,
      kernel_nic_bi_values = map (\<lambda>s. tx_eff (projr (niantic_bw M c b DIR_BOTH (s - 4) None))) szs,
      pmd_nic_bi_values =
        map (\<lambda>s. tx_eff (projr (niantic_bw M c b DIR_BOTH (s - 4) (Some ''PMD'')))) szs\<rparr>"

text \<open>
  A trace is in order for a result when no recorded call but the last raised, and the
  exception of the last is the result.
\<close>

definition trace_ok :: "model \<Rightarrow> call list \<Rightarrow> error option \<Rightarrow> bool" where
  "trace_ok M evs r =
     (\<forall>i < length evs. \<forall>e. outcome M (evs ! i) = Some e \<longrightarrow> Suc i = length evs \<and> r = Some e)"

definition steps :: "model \<Rightarrow> 'a py \<Rightarrow> bool" where
  "steps M m = (\<forall>w r w'. m w = (r, w') \<longrightarrow>
      (\<exists>evs. calls w' = calls w @ evs \<and> trace_ok M evs (raised r)))"

text \<open>
  A computation emits \<open>full\<close> when it only extends the trace, by a prefix of \<open>full\<close>, and by
  all of it when it returns.
\<close>

definition emits :: "'a py \<Rightarrow> call list \<Rightarrow> bool" where
  "emits m full = (\<forall>w r w'. m w = (r, w') \<longrightarrow>
      (\<exists>evs. w' = w\<lparr>calls := calls w @ evs\<rparr> \<and> prefix evs full \<and> (\<forall>x. r = Inr x \<longrightarrow> evs = full)))"

text \<open>The result of a computation does not depend on the world it starts in.\<close>

definition pure_val :: "'a py \<Rightarrow> bool" where
  "pure_val m = (\<forall>v v'. fst (m v) = fst (m v'))"

section \<open>A variant of the loop that builds the basis anew in every iteration\<close>

text \<open>
  Not in the source: the loop as it would read with the construction of the basis moved
  into the body, to compare with \<open>sweep\<close>, which reuses the one basis built before it.
\<close>

fun sweep_recompute :: "model \<Rightarrow> pcie_cfg \<Rightarrow> eth_cfg \<Rightarrow> int list \<Rightarrow> series \<Rightarrow> series py" where
  "sweep_recompute M pciecfg ethcfg [] acc = returnP acc"
| "sweep_recompute M pciecfg ethcfg (sz # rest) acc =
     bindP (call_BW_Spec (TLP_bw pciecfg) (TLP_bw pciecfg) BW_RAW) (\<lambda>bwspec.
     bindP (sweep_body M pciecfg bwspec ethcfg sz) (\<lambda>r.
       sweep_recompute M pciecfg ethcfg rest (store_values acc sz r)))"

section \<open>The memory transfer model of the specification\<close>

text \<open>
  Modelled from the spec: the module \<open>mem_bw\<close> is not in the source tree. Section 4.1 and
  4.3 of the specification: the per-TLP overhead is the framing bytes, the header bytes (a
  64-bit address adds 4 bytes over a 32-bit one), 4 bytes if ECRC is enabled, and the
  link-layer CRC and sequence bytes; a write is carried in packets of at most MPS bytes; a
  read needs the larger of the count of requests of at most MRRS bytes and the count of
  completions chunked at RCB boundaries (the range is taken to start on a boundary, as the
  contract has no address); the effective throughput is the reference bandwidth of the
  basis times \<open>size / (size + overhead * packets)\<close>; a size that is not positive is
  rejected. The byte counts the specification leaves open are a parameter.
\<close>

record tlp_consts =
  framing_bytes :: int
  header_bytes :: int
  dll_bytes :: int

definition per_tlp_overhead :: "tlp_consts \<Rightarrow> pcie_cfg \<Rightarrow> int" where
  "per_tlp_overhead K pciecfg =
     framing_bytes K + header_bytes K + (if addr pciecfg = 64 then 4 else 0)
       + (if ecrc pciecfg \<noteq> 0 then 4 else 0) + dll_bytes K"

definition ceil_div :: "int \<Rightarrow> int \<Rightarrow> int" where
  "ceil_div a b = - ((- a) div b)"

definition write_packets :: "pcie_cfg \<Rightarrow> int \<Rightarrow> int" where
  "write_packets pciecfg n = ceil_div n (mps pciecfg)"

definition read_packets :: "pcie_cfg \<Rightarrow> int \<Rightarrow> int" where
  "read_packets pciecfg n = max (ceil_div n (mrrs pciecfg)) (ceil_div n (rcb pciecfg))"

definition effective :: "real \<Rightarrow> int \<Rightarrow> int \<Rightarrow> int \<Rightarrow> real" where
  "effective ref n ovh pkts = ref * of_int n / (of_int n + of_int ovh * of_int pkts)"

definition spec_write :: "tlp_consts \<Rightarrow> pcie_cfg \<Rightarrow> bw_spec \<Rightarrow> int \<Rightarrow> error + bw_res" where
  "spec_write K pciecfg basis n =
     (if n \<le> 0 then Inl InvalidSizeError
      else Inr \<lparr>rx_eff = None,
                tx_eff = Some (effective (tx_bw basis) n (per_tlp_overhead K pciecfg)
                                 (write_packets pciecfg n))\<rparr>)"

definition spec_read :: "tlp_consts \<Rightarrow> pcie_cfg \<Rightarrow> bw_spec \<Rightarrow> int \<Rightarrow> error + bw_res" where
  "spec_read K pciecfg basis n =
     (if n \<le> 0 then Inl InvalidSizeError
      else Inr \<lparr>rx_eff = Some (effective (rx_bw basis) n (per_tlp_overhead K pciecfg)
                                 (read_packets pciecfg n)),
                tx_eff = None\<rparr>)"

definition spec_read_write :: "tlp_consts \<Rightarrow> pcie_cfg \<Rightarrow> bw_spec \<Rightarrow> int \<Rightarrow> error + bw_res" where
  "spec_read_write K pciecfg basis n =
     (if n \<le> 0 then Inl InvalidSizeError
      else Inr \<lparr>rx_eff = Some (effective (rx_bw basis) n (per_tlp_overhead K pciecfg)
                                 (read_packets pciecfg n)),
                tx_eff = Some (effective (tx_bw basis) n (per_tlp_overhead K pciecfg)
                                 (write_packets pciecfg n))\<rparr>)"

section \<open>A stand-in for the package, to run the driver on\<close>

text \<open>
  The package is not in the source tree, so the driver is evaluated on a stand-in with the
  contract of the specification: the constructor rejects a payload-size limit outside
  \<open>{128, ..., 4096}\<close> with \<open>ConfigurationError\<close>, the per-size functions reject a size that
  is not positive with \<open>InvalidSizeError\<close>, and the TLP-layer bandwidth of a configuration
  is below its raw bandwidth. The figures themselves are simple functions of the size.
\<close>

definition stub_res :: "int \<Rightarrow> real \<Rightarrow> error + bw_res" where
  "stub_res n x =
     (if n \<le> 0 then Inl InvalidSizeError else Inr \<lparr>rx_eff = Some x, tx_eff = Some x\<rparr>)"

definition stub_model :: model where
  "stub_model =
     \<lparr>pcie_Cfg = (\<lambda>v l a e m r c.
         if m \<in> {128, 256, 512, 1024, 2048, 4096}
         then Inr \<lparr>version = PyStr v, lanes = PyStr l, addr = a, ecrc = e, mps = m,
                   mrrs = r, rcb = c, TLP_bw = 7, RAW_bw = 8\<rparr>
         else Inl ConfigurationError),
      eth_Cfg = (\<lambda>s. Inr \<lparr>line_rate = s\<rparr>),
      eth_bps_ex = (\<lambda>e n. if n \<le> 0 then Inl InvalidSizeError else Inr (of_int n * 1000000000)),
      mem_bw_write = (\<lambda>c b n. stub_res n (tx_bw b * of_int n / (of_int n + 24))),
      mem_bw_read = (\<lambda>c b n. stub_res n (rx_bw b * of_int n / (of_int n + 20))),
      mem_bw_read_write = (\<lambda>c b n. stub_res n (tx_bw b * of_int n / (of_int n + 44))),
      simple_nic_bw = (\<lambda>c b d n. stub_res n (tx_bw b * of_int n / (of_int n + 80))),
      niantic_bw = (\<lambda>c b d n h.
         stub_res n (tx_bw b * of_int n / (of_int n + (if h = Some ''PMD'' then 50 else 70)))),
      format_2f = (\<lambda>x. str_int (floor x))\<rparr>"

text \<open>A world with no file, one temporary name to propose and an empty trace.\<close>

definition world0 :: world where
  "world0 = \<lparr>files = Map.empty, tmp_names = [''/tmp/tmpa1b2c3d4''], calls = []\<rparr>"

text \<open>Another world: the first proposed name is taken, and the trace is not empty.\<close>

definition world1 :: world where
  "world1 = \<lparr>files = [''/tmp/tmpa1b2c3d4.dat'' \<mapsto> []],
             tmp_names = [''/tmp/tmpa1b2c3d4'', ''/tmp/tmpe5f6g7h8''],
             calls = [Call_eth_Cfg ''GigE'']\<rparr>"

text \<open>The configuration the stand-in builds from the default choices of the interface.\<close>

definition stub_cfg :: pcie_cfg where
  "stub_cfg = \<lparr>version = PyStr ''gen3'', lanes = PyStr ''x8'', addr = 64, ecrc = 0, mps = 256,
                mrrs = 512, rcb = 64, TLP_bw = 7, RAW_bw = 8\<rparr>"

text \<open>Byte counts to evaluate the memory transfer model of the specification on.\<close>

definition stub_consts :: tlp_consts where
  "stub_consts = \<lparr>framing_bytes = 2, header_bytes = 12, dll_bytes = 6\<rparr>"

section \<open>Lemmas: sequencing, traces, and results that do not depend on the world\<close>

lemmas call_defs =
  call_pcie_Cfg_def call_eth_Cfg_def call_BW_Spec_def call_mem_write_def call_mem_read_def
  call_mem_read_write_def call_eth_bps_ex_def call_simple_nic_def call_niantic_def

lemma bindP_Inr: "m w = (Inr x, w') \<Longrightarrow> bindP m f w = f x w'"
  by (simp add: bindP_def)

lemma bindP_Inl: "m w = (Inl e, w') \<Longrightarrow> bindP m f w = (Inl e, w')"
  by (simp add: bindP_def)

lemma bindP_cases:
  assumes "bindP m f w = (r, w')"
  obtains (raise) e where "m w = (Inl e, w')" "r = Inl e"
        | (go) x w1 where "m w = (Inr x, w1)" "f x w1 = (r, w')"
  using assms by (auto simp: bindP_def split: prod.splits sum.splits)

lemma stepsD:
  "steps M m \<Longrightarrow> m w = (r, w') \<Longrightarrow> \<exists>evs. calls w' = calls w @ evs \<and> trace_ok M evs (raised r)"
  unfolding steps_def by blast

lemma trace_ok_Nil: "trace_ok M [] r"
  by (simp add: trace_ok_def)

lemma trace_ok_append:
  assumes "trace_ok M evs1 None" "trace_ok M evs2 r"
  shows "trace_ok M (evs1 @ evs2) r"
proof -
  have "outcome M ((evs1 @ evs2) ! i) = Some e \<Longrightarrow> i < length (evs1 @ evs2)
        \<Longrightarrow> Suc i = length (evs1 @ evs2) \<and> r = Some e" for i e
  proof (cases "i < length evs1")
    case True
    assume "outcome M ((evs1 @ evs2) ! i) = Some e"
    with True assms(1) show ?thesis by (auto simp: trace_ok_def nth_append)
  next
    case False
    assume a: "outcome M ((evs1 @ evs2) ! i) = Some e" "i < length (evs1 @ evs2)"
    with False have "outcome M (evs2 ! (i - length evs1)) = Some e" "i - length evs1 < length evs2"
      by (auto simp: nth_append)
    with assms(2) have "Suc (i - length evs1) = length evs2 \<and> r = Some e"
      by (auto simp: trace_ok_def)
    with False show ?thesis by auto
  qed
  then show ?thesis by (auto simp: trace_ok_def)
qed

lemma steps_returnP: "steps M (returnP x)"
  by (auto simp: steps_def returnP_def trace_ok_Nil)

lemma steps_liftP: "steps M (liftP r)"
  by (auto simp: steps_def liftP_def trace_ok_Nil)

lemma steps_invoke: "outcome M ev = raised res \<Longrightarrow> steps M (invoke ev res)"
  by (auto simp: steps_def invoke_def trace_ok_def)

lemma steps_tmp: "steps M (NamedTemporaryFile sfx)"
  by (auto simp: steps_def NamedTemporaryFile_def trace_ok_Nil split: list.splits)

lemma steps_bindP:
  assumes "steps M m" "\<And>x. steps M (f x)"
  shows "steps M (bindP m f)"
  unfolding steps_def
proof (intro allI impI)
  fix w r w'
  assume b: "bindP m f w = (r, w')"
  then show "\<exists>evs. calls w' = calls w @ evs \<and> trace_ok M evs (raised r)"
  proof (cases rule: bindP_cases)
    case (raise e)
    from stepsD[OF assms(1) raise(1)] raise(2) show ?thesis by (simp add: raised_def)
  next
    case (go x w1)
    from stepsD[OF assms(1) go(1)] obtain evs1 where 1: "calls w1 = calls w @ evs1" "trace_ok M evs1 None"
      by (auto simp: raised_def)
    from stepsD[OF assms(2) go(2)] obtain evs2 where 2: "calls w' = calls w1 @ evs2" "trace_ok M evs2 (raised r)"
      by auto
    from 1 2 show ?thesis by (auto intro: trace_ok_append)
  qed
qed

lemma steps_sweep_body: "steps M (sweep_body M c b e sz)"
  unfolding sweep_body_def call_defs
  by (intro steps_bindP steps_invoke steps_returnP) simp_all

lemma steps_sweep: "steps M (sweep M c b e szs acc)"
  by (induction szs arbitrary: acc) (auto intro!: steps_bindP steps_returnP steps_sweep_body)

lemma steps_setup: "steps M (run_setup M pv la aw ec mp mr rc es)"
  unfolding run_setup_def call_defs Let_def
  by (intro steps_bindP steps_invoke steps_returnP steps_liftP steps_tmp)
     (simp_all add: raised_def)

lemma steps_compute: "steps M (compute_series M pv la aw ec mp mr rc es)"
  unfolding compute_series_def
  by (intro steps_bindP steps_setup) (auto intro!: steps_bindP steps_sweep steps_returnP)

lemma steps_run: "steps M (run_pcie_model M pv la aw ec mp mr rc es)"
  unfolding run_pcie_model_def
  by (intro steps_bindP steps_compute) (auto intro: steps_liftP)

lemma emitsD:
  "emits m full \<Longrightarrow> m w = (r, w') \<Longrightarrow>
     \<exists>evs. w' = w\<lparr>calls := calls w @ evs\<rparr> \<and> prefix evs full \<and> (\<forall>x. r = Inr x \<longrightarrow> evs = full)"
  unfolding emits_def by blast

lemma emits_returnP: "emits (returnP x) []"
  by (auto simp: emits_def returnP_def)

lemma emits_invoke: "emits (invoke ev res) [ev]"
  by (auto simp: emits_def invoke_def)

lemma emits_bindP:
  assumes "emits m a" "\<And>x. emits (f x) b"
  shows "emits (bindP m f) (a @ b)"
  unfolding emits_def
proof (intro allI impI)
  fix w r w'
  assume "bindP m f w = (r, w')"
  then show "\<exists>evs. w' = w\<lparr>calls := calls w @ evs\<rparr> \<and> prefix evs (a @ b) \<and> (\<forall>x. r = Inr x \<longrightarrow> evs = a @ b)"
  proof (cases rule: bindP_cases)
    case (raise e)
    from emitsD[OF assms(1) raise(1)] raise(2) show ?thesis by auto
  next
    case (go x w1)
    from emitsD[OF assms(1) go(1)] have 1: "w1 = w\<lparr>calls := calls w @ a\<rparr>" by auto
    from emitsD[OF assms(2) go(2)] obtain evs2 where
      2: "w' = w1\<lparr>calls := calls w1 @ evs2\<rparr>" "prefix evs2 b" "\<forall>x. r = Inr x \<longrightarrow> evs2 = b"
      by auto
    from 1 2 have "w' = w\<lparr>calls := calls w @ (a @ evs2)\<rparr>" by simp
    moreover from 2 have "prefix (a @ evs2) (a @ b)" by simp
    ultimately show ?thesis using 2(3) by blast
  qed
qed

lemma emits_sweep_body: "emits (sweep_body M c b e sz) (row_calls c b e sz)"
proof -
  have "emits (sweep_body M c b e sz)
     ([Call_mem_write c b (sz - 4)] @ [Call_mem_read c b (sz - 4)] @
      [Call_mem_read_write c b (sz - 4)] @ [Call_eth_bps_ex e (sz - 4)] @
      [Call_simple_nic c b DIR_BOTH (sz - 4)] @ [Call_niantic c b DIR_BOTH (sz - 4) None] @
      [Call_niantic c b DIR_BOTH (sz - 4) (Some ''PMD'')] @ [])"
    unfolding sweep_body_def call_defs
    by (intro emits_bindP emits_invoke emits_returnP)
  then show ?thesis by (simp add: row_calls_def)
qed

lemma emits_sweep: "emits (sweep M c b e szs acc) (concat (map (row_calls c b e) szs))"
proof (induction szs arbitrary: acc)
  case Nil
  show ?case by (simp add: emits_returnP)
next
  case (Cons sz szs)
  show ?case
    unfolding sweep.simps concat.simps list.map
    by (intro emits_bindP emits_sweep_body Cons.IH)
qed

lemma pure_valD: "pure_val m \<Longrightarrow> fst (m v) = fst (m v')"
  unfolding pure_val_def by blast

lemma pure_returnP: "pure_val (returnP x)"
  by (simp add: pure_val_def returnP_def)

lemma pure_invoke: "pure_val (invoke ev res)"
  by (simp add: pure_val_def invoke_def)

lemma fst_bindP:
  "fst (bindP m f v) = (case fst (m v) of Inl e \<Rightarrow> Inl e | Inr x \<Rightarrow> fst (f x (snd (m v))))"
  by (auto simp: bindP_def split: prod.splits sum.splits)

lemma pure_bindP:
  assumes "pure_val m" "\<And>x. pure_val (f x)"
  shows "pure_val (bindP m f)"
  unfolding pure_val_def
proof (intro allI)
  fix v v'
  have "fst (m v) = fst (m v')" using assms(1) by (rule pure_valD)
  moreover have "fst (f x (snd (m v))) = fst (f x (snd (m v')))" for x
    using assms(2) by (rule pure_valD)
  ultimately show "fst (bindP m f v) = fst (bindP m f v')"
    by (simp add: fst_bindP split: sum.splits)
qed

lemma pure_sweep_body: "pure_val (sweep_body M c b e sz)"
  unfolding sweep_body_def call_defs
  by (intro pure_bindP pure_invoke pure_returnP)

lemma pure_sweep: "pure_val (sweep M c b e szs acc)"
  by (induction szs arbitrary: acc) (auto intro!: pure_bindP pure_returnP pure_sweep_body)

lemma setup_Inr:
  assumes "run_setup M pv la aw ec mp mr rc es w = (Inr (info, cfg, ecfg, bw), w')"
  shows "\<exists>a e m r c n rest.
    py_int aw = Inr a \<and> py_int ec = Inr e \<and> py_int mp = Inr m \<and> py_int mr = Inr r \<and>
    py_int rc = Inr c \<and> pcie_Cfg M pv la a e m r c = Inr cfg \<and> eth_Cfg M es = Inr ecfg \<and>
    dropWhile (\<lambda>n. files w (n @ ''.dat'') \<noteq> None) (tmp_names w) = n # rest \<and>
    info = config_lines M cfg \<and> bw = BW_Spec (TLP_bw cfg) (TLP_bw cfg) BW_RAW \<and>
    calls w' = calls w @ [Call_pcie_Cfg pv la a e m r c, Call_eth_Cfg es,
                 Call_BW_Spec (TLP_bw cfg) (TLP_bw cfg) BW_RAW] \<and>
    files w' = (files w)(n @ ''.dat'' \<mapsto> [])"
  using assms unfolding run_setup_def call_defs Let_def
  by (auto simp: bindP_def liftP_def invoke_def returnP_def NamedTemporaryFile_def
      split: sum.splits prod.splits list.splits)

lemma setup_any:
  assumes "run_setup M pv la aw ec mp mr rc es w = (r, w')"
  shows "\<exists>pre. calls w' = calls w @ pre \<and> (\<forall>ev\<in>set pre. payload_of ev = None \<and> basis_of ev = None)"
  using assms unfolding run_setup_def call_defs Let_def
  by (auto simp: bindP_def liftP_def invoke_def returnP_def NamedTemporaryFile_def
      split: sum.splits prod.splits list.splits)

lemma dropWhile_Cons_fresh:
  assumes "dropWhile P xs = n # rest"
  shows "n \<in> set xs \<and> \<not> P n"
proof -
  from assms have "n \<in> set (dropWhile P xs)" by simp
  then have "n \<in> set xs" by (rule set_dropWhileD)
  moreover from assms have "\<not> P n" by (simp add: dropWhile_eq_Cons_conv)
  ultimately show ?thesis by simp
qed

lemma setup_files:
  assumes "run_setup M pv la aw ec mp mr rc es w = (r, w')"
  shows "files w' = files w \<or>
     (\<exists>n. n \<in> set (tmp_names w) \<and> files w (n @ ''.dat'') = None \<and> files w' = (files w)(n @ ''.dat'' \<mapsto> []))"
  using assms unfolding run_setup_def call_defs Let_def
  by (auto simp: bindP_def liftP_def invoke_def returnP_def NamedTemporaryFile_def
      split: sum.splits prod.splits list.splits dest!: dropWhile_Cons_fresh)

lemma setup_Inr_fresh:
  assumes "run_setup M pv la aw ec mp mr rc es w = (Inr x, w')"
  shows "\<exists>n. n \<in> set (tmp_names w) \<and> files w (n @ ''.dat'') = None \<and> files w' = (files w)(n @ ''.dat'' \<mapsto> [])"
  using assms unfolding run_setup_def call_defs Let_def
  by (auto simp: bindP_def liftP_def invoke_def returnP_def NamedTemporaryFile_def
      split: sum.splits prod.splits list.splits dest!: dropWhile_Cons_fresh)

lemma sweep_files:
  assumes "sweep M c b e szs acc w = (r, w')"
  shows "files w' = files w \<and> tmp_names w' = tmp_names w"
  using emitsD[OF emits_sweep assms] by auto

lemma store_rows_Nil: "store_rows acc [] = acc"
  by (simp add: store_rows_def)

lemma store_rows_Cons: "store_rows acc ((s, r) # srs) = store_rows (store_values acc s r) srs"
  by (simp add: store_rows_def)

lemma store_rows_fields:
  "sizes (store_rows acc srs) = sizes acc @ map fst srs"
  "wr_bw_values (store_rows acc srs) = wr_bw_values acc @ map (\<lambda>(s, r). tx_eff (wr_bw r)) srs"
  "rd_bw_values (store_rows acc srs) = rd_bw_values acc @ map (\<lambda>(s, r). rx_eff (rd_bw r)) srs"
  "rdwr_bw_values (store_rows acc srs) = rdwr_bw_values acc @ map (\<lambda>(s, r). tx_eff (rdwr_bw r)) srs"
  "eth_bw_values (store_rows acc srs) = eth_bw_values acc @ map (\<lambda>(s, r). eth_bw r) srs"
  "simple_nic_bi_values (store_rows acc srs) =
     simple_nic_bi_values acc @ map (\<lambda>(s, r). tx_eff (simple_nic_bi r)) srs"
  "kernel_nic_bi_values (store_rows acc srs) =
     kernel_nic_bi_values acc @ map (\<lambda>(s, r). tx_eff (kernel_nic_bi r)) srs"
  "pmd_nic_bi_values (store_rows acc srs) =
     pmd_nic_bi_values acc @ map (\<lambda>(s, r). tx_eff (pmd_nic_bi r)) srs"
  by (induction srs arbitrary: acc; simp add: store_rows_def store_values_def split: prod.splits)+

lemma sweep_rows:
  assumes "sweep M c b e szs acc w = (Inr ser, w')"
  shows "\<exists>rows. length rows = length szs \<and>
           (\<forall>i<length szs. \<forall>v. fst (sweep_body M c b e (szs ! i) v) = Inr (rows ! i)) \<and>
           ser = store_rows acc (zip szs rows)"
  using assms
proof (induction szs arbitrary: acc w)
  case Nil
  then show ?case by (simp add: returnP_def store_rows_Nil)
next
  case (Cons sz szs)
  from Cons.prems have "bindP (sweep_body M c b e sz)
      (\<lambda>r. sweep M c b e szs (store_values acc sz r)) w = (Inr ser, w')" by simp
  then show ?case
  proof (cases rule: bindP_cases)
    case (raise e)
    then show ?thesis by simp
  next
    case (go r0 w1)
    from Cons.IH[OF go(2)] obtain rows where
      rows: "length rows = length szs"
        "\<forall>i<length szs. \<forall>v. fst (sweep_body M c b e (szs ! i) v) = Inr (rows ! i)"
        "ser = store_rows (store_values acc sz r0) (zip szs rows)"
      by blast
    have r0: "fst (sweep_body M c b e sz v) = Inr r0" for v
      using pure_valD[OF pure_sweep_body, of M c b e sz v w] go(1) by simp
    have "\<forall>i<length (sz # szs). \<forall>v. fst (sweep_body M c b e ((sz # szs) ! i) v) = Inr ((r0 # rows) ! i)"
    proof (intro allI impI)
      fix i v assume "i < length (sz # szs)"
      then show "fst (sweep_body M c b e ((sz # szs) ! i) v) = Inr ((r0 # rows) ! i)"
        using r0 rows(2) by (cases i) auto
    qed
    moreover have "ser = store_rows acc (zip (sz # szs) (r0 # rows))"
      using rows(3) by (simp add: store_rows_Cons)
    moreover have "length (r0 # rows) = length (sz # szs)" using rows(1) by simp
    ultimately show ?thesis by blast
  qed
qed

lemma sweep_Inr:
  assumes "sweep M c b e szs empty_series w = (Inr ser, w')"
  shows "sizes ser = szs"
    and "length (wr_bw_values ser) = length szs"
    and "length (rd_bw_values ser) = length szs"
    and "length (rdwr_bw_values ser) = length szs"
    and "length (eth_bw_values ser) = length szs"
    and "length (simple_nic_bi_values ser) = length szs"
    and "length (kernel_nic_bi_values ser) = length szs"
    and "length (pmd_nic_bi_values ser) = length szs"
proof -
  from sweep_rows[OF assms] obtain rows where
    rows: "length rows = length szs" "ser = store_rows empty_series (zip szs rows)"
    by blast
  show "sizes ser = szs" using rows by (simp add: store_rows_fields empty_series_def)
  show "length (wr_bw_values ser) = length szs"
    and "length (rd_bw_values ser) = length szs"
    and "length (rdwr_bw_values ser) = length szs"
    and "length (eth_bw_values ser) = length szs"
    and "length (simple_nic_bi_values ser) = length szs"
    and "length (kernel_nic_bi_values ser) = length szs"
    and "length (pmd_nic_bi_values ser) = length szs"
    using rows by (simp_all add: store_rows_fields empty_series_def)
qed

lemma length_sweep_sizes: "length sweep_sizes = 1437"
  unfolding sweep_sizes_def length_upto by simp

lemma nth_sweep_sizes:
  assumes "i < 1437"
  shows "sweep_sizes ! i = 64 + int i"
proof -
  from assms have "64 + int i \<le> 1500" by simp
  then have "[64..1500] ! i = 64 + int i" by (rule nth_upto)
  then show ?thesis by (simp only: sweep_sizes_def)
qed

lemma set_sweep_sizes: "set sweep_sizes = {64..1500}"
  by (simp only: sweep_sizes_def set_upto)

lemma py_int_ui:
  "py_int ''32'' = Inr 32" "py_int ''64'' = Inr 64" "py_int ''0'' = Inr 0" "py_int ''1'' = Inr 1"
  "py_int ''128'' = Inr 128" "py_int ''256'' = Inr 256" "py_int ''512'' = Inr 512"
  "py_int ''1024'' = Inr 1024" "py_int ''2048'' = Inr 2048" "py_int ''4096'' = Inr 4096"
  "py_int ''300'' = Inr 300"
  by (simp_all add: py_int_def parse_digits_def max_str_digits_def strip_def is_space_def
      is_digit_def digits_val_def digit_val_def)

lemma sweep_succeeds:
  assumes "\<forall>s\<in>set szs. \<exists>r. fst (sweep_body M c b e s w0) = Inr r"
  shows "\<exists>ser w'. sweep M c b e szs acc w = (Inr ser, w')"
  using assms
proof (induction szs arbitrary: acc w)
  case Nil
  show ?case by (simp add: returnP_def)
next
  case (Cons sz szs)
  from Cons.prems obtain r where "fst (sweep_body M c b e sz w0) = Inr r" by auto
  then have "fst (sweep_body M c b e sz w) = Inr r"
    using pure_valD[OF pure_sweep_body, of M c b e sz w w0] by simp
  then obtain w1 where 1: "sweep_body M c b e sz w = (Inr r, w1)"
    by (cases "sweep_body M c b e sz w") simp
  from Cons.prems have "\<forall>s\<in>set szs. \<exists>r. fst (sweep_body M c b e s w0) = Inr r" by simp
  from Cons.IH[OF this, of "store_values acc sz r" w1] 1
  show ?case by (simp add: bindP_Inr)
qed

lemma stub_body:
  assumes "4 < sz"
  shows "\<exists>r. fst (sweep_body stub_model c b e sz w) = Inr r"
  using assms
  by (simp add: sweep_body_def call_defs bindP_def invoke_def returnP_def stub_model_def stub_res_def)

lemma stub_sweep:
  "\<exists>ser w'. sweep stub_model c b e sweep_sizes acc w = (Inr ser, w')"
proof (rule sweep_succeeds)
  show "\<forall>s\<in>set sweep_sizes. \<exists>r. fst (sweep_body stub_model c b e s w) = Inr r"
    unfolding set_sweep_sizes by (auto intro!: stub_body)
qed

lemma stub_setup:
  "run_setup stub_model ''gen3'' ''x8'' ''64'' ''0'' ''256'' ''512'' ''64'' ''40GigE'' world0 =
     (Inr (config_lines stub_model stub_cfg, stub_cfg, \<lparr>line_rate = ''40GigE''\<rparr>, BW_Spec 7 7 BW_RAW),
      \<lparr>files = [''/tmp/tmpa1b2c3d4.dat'' \<mapsto> []], tmp_names = [],
       calls = [Call_pcie_Cfg ''gen3'' ''x8'' 64 0 256 512 64, Call_eth_Cfg ''40GigE'',
                Call_BW_Spec 7 7 BW_RAW]\<rparr>)"
  by (simp add: run_setup_def call_defs bindP_def liftP_def invoke_def returnP_def py_int_ui
      NamedTemporaryFile_def world0_def stub_model_def stub_cfg_def Let_def)

lemma stub_setup_bad_mps:
  "run_setup stub_model ''gen3'' ''x8'' ''64'' ''0'' ''300'' ''512'' ''64'' ''40GigE'' world0 =
     (Inl ConfigurationError, world0\<lparr>calls := [Call_pcie_Cfg ''gen3'' ''x8'' 64 0 300 512 64]\<rparr>)"
  by (simp add: run_setup_def call_defs bindP_def liftP_def invoke_def returnP_def py_int_ui
      NamedTemporaryFile_def world0_def stub_model_def Let_def)





lemma make_table_succeeds:
  assumes "length (sizes ser) = n" "length (wr_bw_values ser) = n" "length (rd_bw_values ser) = n"
    "length (rdwr_bw_values ser) = n" "length (eth_bw_values ser) = n"
    "length (simple_nic_bi_values ser) = n" "length (kernel_nic_bi_values ser) = n"
    "length (pmd_nic_bi_values ser) = n"
  shows "\<exists>df. make_table ser es = Inr df"
  using assms
  by (simp add: make_table_def dict_display_def DataFrame_def)


lemma run_Inr:
  assumes "run_pcie_model M pv la aw ec mp mr rc es w = (Inr (txt, fig, sdf), w')"
  shows "\<exists>info ser df. compute_series M pv la aw ec mp mr rc es w = (Inr (info, ser), w') \<and>
           make_table ser es = Inr df \<and> txt = join_lines info \<and> fig = make_figure ser es \<and>
           sdf = reset_index_drop (iloc_step 64 df)"
  using assms unfolding run_pcie_model_def
  by (auto simp: bindP_def liftP_def present_def Let_def split: sum.splits prod.splits)

lemma compute_Inr:
  assumes "compute_series M pv la aw ec mp mr rc es w = (Inr (info, ser), w')"
  shows "\<exists>cfg ecfg bw w1. run_setup M pv la aw ec mp mr rc es w = (Inr (info, cfg, ecfg, bw), w1) \<and>
           sweep M cfg bw ecfg sweep_sizes empty_series w1 = (Inr ser, w')"
  using assms unfolding compute_series_def
  by (auto simp: bindP_def returnP_def split: sum.splits prod.splits)

lemma compute_any:
  assumes "compute_series M pv la aw ec mp mr rc es w = (r, w')"
  shows "(\<exists>e. r = Inl e \<and> run_setup M pv la aw ec mp mr rc es w = (Inl e, w')) \<or>
         (\<exists>info cfg ecfg bw w1 rs. run_setup M pv la aw ec mp mr rc es w = (Inr (info, cfg, ecfg, bw), w1) \<and>
           sweep M cfg bw ecfg sweep_sizes empty_series w1 = (rs, w') \<and>
           r = map_sum id (\<lambda>ser. (info, ser)) rs)"
  using assms unfolding compute_series_def
  by (auto simp: bindP_def returnP_def split: sum.splits prod.splits)

lemma run_snd:
  "snd (run_pcie_model M pv la aw ec mp mr rc es w) = snd (compute_series M pv la aw ec mp mr rc es w)"
  unfolding run_pcie_model_def
  by (auto simp: bindP_def liftP_def split: sum.splits prod.splits)

lemma run_fst:
  "fst (run_pcie_model M pv la aw ec mp mr rc es w) =
     (case fst (compute_series M pv la aw ec mp mr rc es w) of
        Inl e \<Rightarrow> Inl e
      | Inr (info, ser) \<Rightarrow> present info ser es)"
  unfolding run_pcie_model_def
  by (auto simp: bindP_def liftP_def split: sum.splits prod.splits)

lemma in_row_calls:
  assumes "ev \<in> set (concat (map (row_calls c b e) szs))"
  shows "\<exists>s\<in>set szs. payload_of ev = Some (s - 4) \<and> (basis_of ev = None \<or> basis_of ev = Some (c, b))"
  using assms by (auto simp: row_calls_def)

lemma new_calls_append: "calls w' = calls w @ evs \<Longrightarrow> new_calls w w' = evs"
  by (simp add: new_calls_def)

lemma run_trace:
  assumes "run_pcie_model M pv la aw ec mp mr rc es w = (r, w')"
  shows "\<exists>pre lp cfg ecfg.
      new_calls w w' = pre @ lp \<and>
      (\<forall>ev\<in>set pre. payload_of ev = None \<and> basis_of ev = None) \<and>
      prefix lp (concat (map (row_calls cfg (BW_Spec (TLP_bw cfg) (TLP_bw cfg) BW_RAW) ecfg) sweep_sizes)) \<and>
      (\<forall>x. r = Inr x \<longrightarrow>
         lp = concat (map (row_calls cfg (BW_Spec (TLP_bw cfg) (TLP_bw cfg) BW_RAW) ecfg) sweep_sizes))"
proof -
  let ?c = "compute_series M pv la aw ec mp mr rc es w"
  have w': "snd ?c = w'" using run_snd[of M pv la aw ec mp mr rc es w] assms by simp
  have r: "fst ?c = Inl e \<Longrightarrow> r = Inl e" for e
    using run_fst[of M pv la aw ec mp mr rc es w] assms by simp
  have c: "?c = (fst ?c, w')" using w' by (metis prod.collapse)
  from compute_any[OF c] show ?thesis
  proof (elim disjE exE conjE)
    fix e assume e: "fst ?c = Inl e" "run_setup M pv la aw ec mp mr rc es w = (Inl e, w')"
    from setup_any[OF e(2)] obtain pre where
      "calls w' = calls w @ pre" "\<forall>ev\<in>set pre. payload_of ev = None \<and> basis_of ev = None"
      by blast
    moreover from r[OF e(1)] have "\<forall>x. r \<noteq> Inr x" by simp
    ultimately show ?thesis
      by (intro exI[of _ pre] exI[of _ "[]"]) (simp add: new_calls_append)
  next
    fix info cfg ecfg bw w1 rs
    assume s: "run_setup M pv la aw ec mp mr rc es w = (Inr (info, cfg, ecfg, bw), w1)"
      and sw: "sweep M cfg bw ecfg sweep_sizes empty_series w1 = (rs, w')"
      and rs: "fst ?c = map_sum id (Pair info) rs"
    from setup_Inr[OF s] obtain pre where
      bw: "bw = BW_Spec (TLP_bw cfg) (TLP_bw cfg) BW_RAW" and
      pre: "calls w1 = calls w @ pre" "\<forall>ev\<in>set pre. payload_of ev = None \<and> basis_of ev = None"
      by auto
    from emitsD[OF emits_sweep sw] obtain lp where
      lp: "calls w' = calls w1 @ lp" "prefix lp (concat (map (row_calls cfg bw ecfg) sweep_sizes))"
        "\<forall>x. rs = Inr x \<longrightarrow> lp = concat (map (row_calls cfg bw ecfg) sweep_sizes)"
      by auto
    have "\<forall>x. r = Inr x \<longrightarrow> (\<exists>y. rs = Inr y)"
      using r rs by (cases rs) auto
    with lp(3) have "\<forall>x. r = Inr x \<longrightarrow> lp = concat (map (row_calls cfg bw ecfg) sweep_sizes)"
      by blast
    moreover have "new_calls w w' = pre @ lp" using pre(1) lp(1) by (simp add: new_calls_def)
    ultimately show ?thesis using pre(2) lp(2) unfolding bw by blast
  qed
qed

lemma run_succeeds:
  assumes "run_setup M pv la aw ec mp mr rc es w = (Inr (info, cfg, ecfg, bw), w1)"
    and "sweep M cfg bw ecfg sweep_sizes empty_series w1 = (Inr ser, w')"
  shows "\<exists>df. make_table ser es = Inr df \<and>
     compute_series M pv la aw ec mp mr rc es w = (Inr (info, ser), w') \<and>
     run_pcie_model M pv la aw ec mp mr rc es w =
       (Inr (join_lines info, make_figure ser es, reset_index_drop (iloc_step 64 df)), w')"
proof -
  have c: "compute_series M pv la aw ec mp mr rc es w = (Inr (info, ser), w')"
    using assms by (simp add: compute_series_def bindP_def returnP_def)
  from sweep_Inr(1-8)[OF assms(2)] have "\<exists>df. make_table ser es = Inr df"
    by (intro make_table_succeeds[where n = "length sweep_sizes"]) simp_all
  then obtain df where df: "make_table ser es = Inr df" ..
  with c have "run_pcie_model M pv la aw ec mp mr rc es w =
       (Inr (join_lines info, make_figure ser es, reset_index_drop (iloc_step 64 df)), w')"
    by (simp add: run_pcie_model_def bindP_def liftP_def present_def)
  with c df show ?thesis by blast
qed

lemma stub_run:
  "\<exists>out ser w'.
     run_pcie_model stub_model ''gen3'' ''x8'' ''64'' ''0'' ''256'' ''512'' ''64'' ''40GigE'' world0
       = (Inr out, w') \<and>
     compute_series stub_model ''gen3'' ''x8'' ''64'' ''0'' ''256'' ''512'' ''64'' ''40GigE'' world0
       = (Inr (config_lines stub_model stub_cfg, ser), w') \<and>
     calls w' = [Call_pcie_Cfg ''gen3'' ''x8'' 64 0 256 512 64, Call_eth_Cfg ''40GigE'',
                 Call_BW_Spec 7 7 BW_RAW] @
                concat (map (row_calls stub_cfg (BW_Spec 7 7 BW_RAW) \<lparr>line_rate = ''40GigE''\<rparr>)
                  sweep_sizes) \<and>
     files w' = [''/tmp/tmpa1b2c3d4.dat'' \<mapsto> []]"
proof -
  let ?w1 = "\<lparr>files = [''/tmp/tmpa1b2c3d4.dat'' \<mapsto> []], tmp_names = [],
       calls = [Call_pcie_Cfg ''gen3'' ''x8'' 64 0 256 512 64, Call_eth_Cfg ''40GigE'',
                Call_BW_Spec 7 7 BW_RAW]\<rparr>"
  let ?e = "\<lparr>line_rate = ''40GigE''\<rparr>"
  from stub_sweep[of stub_cfg "BW_Spec 7 7 BW_RAW" ?e empty_series ?w1]
  obtain ser w' where sw: "sweep stub_model stub_cfg (BW_Spec 7 7 BW_RAW) ?e sweep_sizes empty_series ?w1
      = (Inr ser, w')" by blast
  from emitsD[OF emits_sweep sw]
  have w': "w' = ?w1\<lparr>calls := calls ?w1 @
      concat (map (row_calls stub_cfg (BW_Spec 7 7 BW_RAW) ?e) sweep_sizes)\<rparr>"
    by auto
  from run_succeeds[OF stub_setup sw] w' show ?thesis by auto
qed

lemma sweep_sizes_Cons: "sweep_sizes = 64 # [65..1500]"
proof -
  have "[64..1500] = 64 # [64 + 1..1500]" by (rule upto_rec1) simp
  then show ?thesis by (simp only: sweep_sizes_def) simp
qed

lemma stub_run_mem_write:
  "Call_mem_write stub_cfg (BW_Spec 7 7 BW_RAW) 60 \<in> set (new_calls world0
      (snd (run_pcie_model stub_model ''gen3'' ''x8'' ''64'' ''0'' ''256'' ''512'' ''64'' ''40GigE'' world0)))"
proof -
  let ?run = "run_pcie_model stub_model ''gen3'' ''x8'' ''64'' ''0'' ''256'' ''512'' ''64'' ''40GigE'' world0"
  from stub_run obtain out ser w' where
    r: "?run = (Inr out, w')"
    and "compute_series stub_model ''gen3'' ''x8'' ''64'' ''0'' ''256'' ''512'' ''64'' ''40GigE'' world0
       = (Inr (config_lines stub_model stub_cfg, ser), w')"
    and c: "calls w' = [Call_pcie_Cfg ''gen3'' ''x8'' 64 0 256 512 64, Call_eth_Cfg ''40GigE'',
                 Call_BW_Spec 7 7 BW_RAW] @
                concat (map (row_calls stub_cfg (BW_Spec 7 7 BW_RAW) \<lparr>line_rate = ''40GigE''\<rparr>)
                  sweep_sizes)"
    by blast
  from r have s: "snd ?run = w'" by simp
  have "Call_mem_write stub_cfg (BW_Spec 7 7 BW_RAW) 60
      \<in> set (row_calls stub_cfg (BW_Spec 7 7 BW_RAW) \<lparr>line_rate = ''40GigE''\<rparr> 64)"
    by (simp add: row_calls_def)
  moreover have "64 \<in> set sweep_sizes" unfolding set_sweep_sizes by simp
  ultimately have "Call_mem_write stub_cfg (BW_Spec 7 7 BW_RAW) 60 \<in> set (calls w')"
    unfolding c by auto
  then show ?thesis
    unfolding s by (simp add: new_calls_def world0_def)
qed

lemma nth_3_row_calls:
  "([a, b, c] @ (row_calls cf bw e s @ rest)) ! 3 = Call_mem_write cf bw (s - 4)"
  by (simp add: row_calls_def)

lemma stub_run_call_3:
  "new_calls world0
      (snd (run_pcie_model stub_model ''gen3'' ''x8'' ''64'' ''0'' ''256'' ''512'' ''64'' ''40GigE'' world0)) ! 3
     = Call_mem_write stub_cfg (BW_Spec 7 7 BW_RAW) 60"
proof -
  let ?run = "run_pcie_model stub_model ''gen3'' ''x8'' ''64'' ''0'' ''256'' ''512'' ''64'' ''40GigE'' world0"
  let ?f = "row_calls stub_cfg (BW_Spec 7 7 BW_RAW) \<lparr>line_rate = ''40GigE''\<rparr>"
  from stub_run obtain out ser w' where
    r: "?run = (Inr out, w')"
    and "compute_series stub_model ''gen3'' ''x8'' ''64'' ''0'' ''256'' ''512'' ''64'' ''40GigE'' world0
       = (Inr (config_lines stub_model stub_cfg, ser), w')"
    and c: "calls w' = [Call_pcie_Cfg ''gen3'' ''x8'' 64 0 256 512 64, Call_eth_Cfg ''40GigE'',
                 Call_BW_Spec 7 7 BW_RAW] @ concat (map ?f sweep_sizes)"
    by blast
  have "concat (map ?f sweep_sizes) = ?f 64 @ concat (map ?f [65..1500])"
    by (simp only: sweep_sizes_Cons list.map concat.simps)
  with c have "calls w' ! 3 = Call_mem_write stub_cfg (BW_Spec 7 7 BW_RAW) (64 - 4)"
    by (simp only: nth_3_row_calls)
  moreover have "new_calls world0 (snd ?run) = calls w'"
    using r by (simp add: new_calls_def world0_def)
  ultimately show ?thesis by simp
qed

lemma length_row_calls: "length (concat (map (row_calls c b e) szs)) = 7 * length szs"
  by (induction szs) (simp_all add: row_calls_def)

lemma run_Inr_parts:
  assumes "run_pcie_model M pv la aw ec mp mr rc es w = (Inr out, w')"
  shows "\<exists>info cfg ecfg w1 ser df.
     run_setup M pv la aw ec mp mr rc es w
       = (Inr (info, cfg, ecfg, BW_Spec (TLP_bw cfg) (TLP_bw cfg) BW_RAW), w1) \<and>
     sweep M cfg (BW_Spec (TLP_bw cfg) (TLP_bw cfg) BW_RAW) ecfg sweep_sizes empty_series w1
       = (Inr ser, w') \<and>
     compute_series M pv la aw ec mp mr rc es w = (Inr (info, ser), w') \<and>
     make_table ser es = Inr df \<and>
     out = (join_lines info, make_figure ser es, reset_index_drop (iloc_step 64 df))"
proof -
  obtain ctext fig sdf where out: "out = (ctext, fig, sdf)" by (cases out)
  from run_Inr[OF assms[unfolded out]] obtain info ser df where
    c: "compute_series M pv la aw ec mp mr rc es w = (Inr (info, ser), w')"
    and d: "make_table ser es = Inr df" "ctext = join_lines info" "fig = make_figure ser es"
      "sdf = reset_index_drop (iloc_step 64 df)" by blast
  from compute_Inr[OF c] obtain cfg ecfg bw w1 where
    s: "run_setup M pv la aw ec mp mr rc es w = (Inr (info, cfg, ecfg, bw), w1)"
    and sw: "sweep M cfg bw ecfg sweep_sizes empty_series w1 = (Inr ser, w')" by blast
  from setup_Inr[OF s] have "bw = BW_Spec (TLP_bw cfg) (TLP_bw cfg) BW_RAW" by blast
  with s sw c d out show ?thesis by blast
qed




lemma setup_deterministic:
  assumes "run_setup M pv la aw ec mp mr rc es w1 = (Inr (i1, c1, e1, b1), w1')"
    and "run_setup M pv la aw ec mp mr rc es w2 = (Inr (i2, c2, e2, b2), w2')"
  shows "i1 = i2 \<and> c1 = c2 \<and> e1 = e2 \<and> b1 = b2"
  using setup_Inr[OF assms(1)] setup_Inr[OF assms(2)] by auto

lemma compute_deterministic:
  assumes "compute_series M pv la aw ec mp mr rc es w1 = (Inr x1, w1')"
    and "compute_series M pv la aw ec mp mr rc es w2 = (Inr x2, w2')"
  shows "x1 = x2"
proof -
  obtain i1 s1 where x1: "x1 = (i1, s1)" by (cases x1)
  obtain i2 s2 where x2: "x2 = (i2, s2)" by (cases x2)
  from compute_Inr[OF assms(1)[unfolded x1]] obtain c1 e1 b1 v1 where
    1: "run_setup M pv la aw ec mp mr rc es w1 = (Inr (i1, c1, e1, b1), v1)"
       "sweep M c1 b1 e1 sweep_sizes empty_series v1 = (Inr s1, w1')" by blast
  from compute_Inr[OF assms(2)[unfolded x2]] obtain c2 e2 b2 v2 where
    2: "run_setup M pv la aw ec mp mr rc es w2 = (Inr (i2, c2, e2, b2), v2)"
       "sweep M c2 b2 e2 sweep_sizes empty_series v2 = (Inr s2, w2')" by blast
  from setup_deterministic[OF 1(1) 2(1)] have eq: "i1 = i2" "c1 = c2" "e1 = e2" "b1 = b2" by simp_all
  from pure_valD[OF pure_sweep, of M c1 b1 e1 sweep_sizes empty_series v1 v2] 1(2) 2(2) eq
  have "s1 = s2" by simp
  with eq x1 x2 show ?thesis by simp
qed

lemma run_deterministic:
  assumes "run_pcie_model M pv la aw ec mp mr rc es w1 = (Inr o1, w1')"
    and "run_pcie_model M pv la aw ec mp mr rc es w2 = (Inr o2, w2')"
  shows "o1 = o2"
proof -
  from run_Inr_parts[OF assms(1)] obtain i1 s1 d1 where
    1: "compute_series M pv la aw ec mp mr rc es w1 = (Inr (i1, s1), w1')"
       "make_table s1 es = Inr d1"
       "o1 = (join_lines i1, make_figure s1 es, reset_index_drop (iloc_step 64 d1))" by blast
  from run_Inr_parts[OF assms(2)] obtain i2 s2 d2 where
    2: "compute_series M pv la aw ec mp mr rc es w2 = (Inr (i2, s2), w2')"
       "make_table s2 es = Inr d2"
       "o2 = (join_lines i2, make_figure s2 es, reset_index_drop (iloc_step 64 d2))" by blast
  from compute_deterministic[OF 1(1) 2(1)] have "i1 = i2" "s1 = s2" by simp_all
  with 1 2 show ?thesis by simp
qed

lemma fst_invoke_bindP: "fst (bindP (invoke ev (Inr x)) f v) = fst (f x (v\<lparr>calls := calls v @ [ev]\<rparr>))"
  by (simp add: bindP_def invoke_def)

lemma sweep_recompute_eq:
  "fst (sweep_recompute M c e szs acc v) =
     fst (sweep M c (BW_Spec (TLP_bw c) (TLP_bw c) BW_RAW) e szs acc v')"
proof (induction szs arbitrary: acc v v')
  case Nil
  show ?case by (simp add: returnP_def)
next
  case (Cons sz szs)
  let ?b = "BW_Spec (TLP_bw c) (TLP_bw c) BW_RAW"
  let ?v1 = "v\<lparr>calls := calls v @ [Call_BW_Spec (TLP_bw c) (TLP_bw c) BW_RAW]\<rparr>"
  have b: "fst (sweep_body M c ?b e sz ?v1) = fst (sweep_body M c ?b e sz v')"
    by (rule pure_valD[OF pure_sweep_body])
  show ?case
    unfolding sweep_recompute.simps sweep.simps call_BW_Spec_def fst_invoke_bindP
    by (simp add: fst_bindP b Cons.IH[of _ _ "snd (sweep_body M c ?b e sz v')"] split: sum.splits)
qed

lemma stub_setup1:
  "run_setup stub_model ''gen3'' ''x8'' ''64'' ''0'' ''256'' ''512'' ''64'' ''40GigE'' world1 =
     (Inr (config_lines stub_model stub_cfg, stub_cfg, \<lparr>line_rate = ''40GigE''\<rparr>, BW_Spec 7 7 BW_RAW),
      \<lparr>files = [''/tmp/tmpa1b2c3d4.dat'' \<mapsto> [], ''/tmp/tmpe5f6g7h8.dat'' \<mapsto> []], tmp_names = [],
       calls = [Call_eth_Cfg ''GigE'', Call_pcie_Cfg ''gen3'' ''x8'' 64 0 256 512 64,
                Call_eth_Cfg ''40GigE'', Call_BW_Spec 7 7 BW_RAW]\<rparr>)"
  by (simp add: run_setup_def call_defs bindP_def liftP_def invoke_def returnP_def py_int_ui
      NamedTemporaryFile_def world1_def stub_model_def stub_cfg_def Let_def)

lemma stub_run1:
  "\<exists>out w'. run_pcie_model stub_model ''gen3'' ''x8'' ''64'' ''0'' ''256'' ''512'' ''64'' ''40GigE'' world1
       = (Inr out, w')"
proof -
  let ?w1 = "\<lparr>files = [''/tmp/tmpa1b2c3d4.dat'' \<mapsto> [], ''/tmp/tmpe5f6g7h8.dat'' \<mapsto> []], tmp_names = [],
       calls = [Call_eth_Cfg ''GigE'', Call_pcie_Cfg ''gen3'' ''x8'' 64 0 256 512 64,
                Call_eth_Cfg ''40GigE'', Call_BW_Spec 7 7 BW_RAW]\<rparr>"
  let ?e = "\<lparr>line_rate = ''40GigE''\<rparr>"
  from stub_sweep[of stub_cfg "BW_Spec 7 7 BW_RAW" ?e empty_series ?w1]
  obtain ser w' where sw: "sweep stub_model stub_cfg (BW_Spec 7 7 BW_RAW) ?e sweep_sizes empty_series ?w1
      = (Inr ser, w')" by blast
  from run_succeeds[OF stub_setup1 sw] show ?thesis by blast
qed

lemma spec_transfers_60:
  "spec_read_write stub_consts stub_cfg (BW_Spec 7 7 BW_RAW) 60 = Inr \<lparr>rx_eff = Some 5, tx_eff = Some 5\<rparr>"
  "spec_write stub_consts stub_cfg (BW_Spec 7 7 BW_RAW) 60 = Inr \<lparr>rx_eff = None, tx_eff = Some 5\<rparr>"
  "spec_read stub_consts stub_cfg (BW_Spec 7 7 BW_RAW) 60 = Inr \<lparr>rx_eff = Some 5, tx_eff = None\<rparr>"
  by (simp_all add: spec_read_write_def spec_write_def spec_read_def effective_def
      per_tlp_overhead_def write_packets_def read_packets_def ceil_div_def stub_consts_def
      stub_cfg_def BW_Spec_def)

lemma body_Inr_iff:
  "fst (sweep_body M c b e s v) = Inr rw \<longleftrightarrow> rows_ok M c b e s \<and> rw = row_of M c b e s"
  unfolding sweep_body_def call_defs rows_ok_def row_of_def
  by (auto simp: bindP_def invoke_def returnP_def isl_def split: sum.splits)

lemma sweep_series:
  assumes "sweep M c b e szs empty_series w = (Inr ser, w')"
  shows "(\<forall>s\<in>set szs. rows_ok M c b e s) \<and> ser = series_of M c b e szs"
proof -
  from sweep_rows[OF assms] obtain rows where
    rows: "length rows = length szs"
      "\<forall>i<length szs. \<forall>v. fst (sweep_body M c b e (szs ! i) v) = Inr (rows ! i)"
      "ser = store_rows empty_series (zip szs rows)"
    by blast
  have at: "rows_ok M c b e (szs ! i) \<and> rows ! i = row_of M c b e (szs ! i)" if "i < length szs" for i
    using rows(2) that body_Inr_iff[of M c b e "szs ! i" w "rows ! i"] by blast
  have ok: "\<forall>s\<in>set szs. rows_ok M c b e s"
    using at by (auto simp: in_set_conv_nth)
  have r: "rows = map (row_of M c b e) szs"
    by (rule nth_equalityI) (use rows(1) at in auto)
  have z: "map (\<lambda>(s, r). g r) (zip szs (map (row_of M c b e) szs)) = map (\<lambda>s. g (row_of M c b e s)) szs"
    for g :: "rowvals \<Rightarrow> 'x"
    by (induction szs) simp_all
  have z1: "map fst (zip szs (map (row_of M c b e) szs)) = szs"
    by (induction szs) simp_all
  have "ser = \<lparr>sizes = szs,
           wr_bw_values = map (\<lambda>s. tx_eff (wr_bw (row_of M c b e s))) szs,
           rd_bw_values = map (\<lambda>s. rx_eff (rd_bw (row_of M c b e s))) szs,
           rdwr_bw_values = map (\<lambda>s. tx_eff (rdwr_bw (row_of M c b e s))) szs,
           eth_bw_values = map (\<lambda>s. eth_bw (row_of M c b e s)) szs,
           simple_nic_bi_values = map (\<lambda>s. tx_eff (simple_nic_bi (row_of M c b e s))) szs,
           kernel_nic_bi_values = map (\<lambda>s. tx_eff (kernel_nic_bi (row_of M c b e s))) szs,
           pmd_nic_bi_values = map (\<lambda>s. tx_eff (pmd_nic_bi (row_of M c b e s))) szs\<rparr>"
    unfolding rows(3) r
    by (rule series.equality) (simp_all add: store_rows_fields empty_series_def z z1)
  then show ?thesis using ok by (simp add: row_of_def series_of_def)
qed

lemma rows_okD:
  assumes "rows_ok M c b e s"
  shows "(\<exists>x. mem_bw_write M c b (s - 4) = Inr x) \<and> (\<exists>x. mem_bw_read M c b (s - 4) = Inr x) \<and>
     (\<exists>x. mem_bw_read_write M c b (s - 4) = Inr x) \<and> (\<exists>x. eth_bps_ex M e (s - 4) = Inr x) \<and>
     (\<exists>x. simple_nic_bw M c b DIR_BOTH (s - 4) = Inr x) \<and>
     (\<exists>x. niantic_bw M c b DIR_BOTH (s - 4) None = Inr x) \<and>
     (\<exists>x. niantic_bw M c b DIR_BOTH (s - 4) (Some ''PMD'') = Inr x)"
  using assms unfolding rows_ok_def
  by (metis sum.collapse(2))

lemma setup_world:
  assumes "run_setup M pv la aw ec mp mr rc es w = (r, w1)"
  shows "files w1 =
           (if reaches_tmpfile M pv la aw ec mp mr rc es
            then (case free_names w ''.dat'' of [] \<Rightarrow> files w
                  | n # rest \<Rightarrow> (files w)(n @ ''.dat'' \<mapsto> []))
            else files w) \<and>
         tmp_names w1 =
           (if reaches_tmpfile M pv la aw ec mp mr rc es
            then (case free_names w ''.dat'' of [] \<Rightarrow> [] | n # rest \<Rightarrow> rest)
            else tmp_names w) \<and>
         (\<forall>x. r = Inr x \<longrightarrow> reaches_tmpfile M pv la aw ec mp mr rc es \<and> free_names w ''.dat'' \<noteq> []) \<and>
         length (new_calls w w1) \<le> 3"
  using assms unfolding run_setup_def call_defs Let_def reaches_tmpfile_def free_names_def new_calls_def
  by (auto simp: bindP_def liftP_def invoke_def returnP_def NamedTemporaryFile_def
      simp del: dropWhile_eq_Nil_conv split: sum.splits prod.splits list.splits)

lemma run_world:
  assumes "run_pcie_model M pv la aw ec mp mr rc es w = (r, w')"
  shows "files w' =
           (if reaches_tmpfile M pv la aw ec mp mr rc es
            then (case free_names w ''.dat'' of [] \<Rightarrow> files w
                  | n # rest \<Rightarrow> (files w)(n @ ''.dat'' \<mapsto> []))
            else files w) \<and>
         tmp_names w' =
           (if reaches_tmpfile M pv la aw ec mp mr rc es
            then (case free_names w ''.dat'' of [] \<Rightarrow> [] | n # rest \<Rightarrow> rest)
            else tmp_names w) \<and>
         (\<forall>x. r = Inr x \<longrightarrow> reaches_tmpfile M pv la aw ec mp mr rc es \<and> free_names w ''.dat'' \<noteq> []) \<and>
         length (new_calls w w') \<le> 3 + 7 * 1437"
proof -
  let ?c = "compute_series M pv la aw ec mp mr rc es w"
  have w': "snd ?c = w'" using run_snd[of M pv la aw ec mp mr rc es w] assms by simp
  have r: "fst ?c = Inl e \<Longrightarrow> r = Inl e" for e
    using run_fst[of M pv la aw ec mp mr rc es w] assms by simp
  have c: "?c = (fst ?c, w')" using w' by (metis prod.collapse)
  from compute_any[OF c] show ?thesis
  proof (elim disjE exE conjE)
    fix e assume e: "fst ?c = Inl e" "run_setup M pv la aw ec mp mr rc es w = (Inl e, w')"
    from setup_world[OF e(2)] r[OF e(1)] show ?thesis by simp
  next
    fix info cfg ecfg bw w1 rs
    assume s: "run_setup M pv la aw ec mp mr rc es w = (Inr (info, cfg, ecfg, bw), w1)"
      and sw: "sweep M cfg bw ecfg sweep_sizes empty_series w1 = (rs, w')"
    from emitsD[OF emits_sweep sw] obtain lp where
      lp: "w' = w1\<lparr>calls := calls w1 @ lp\<rparr>"
        "prefix lp (concat (map (row_calls cfg bw ecfg) sweep_sizes))" by blast
    from lp(2) have "length lp \<le> length (concat (map (row_calls cfg bw ecfg) sweep_sizes))"
      by (rule prefix_length_le)
    then have l: "length lp \<le> 7 * 1437" by (simp add: length_row_calls length_sweep_sizes)
    from setup_any[OF s] obtain pre where pre: "calls w1 = calls w @ pre" by blast
    then have "new_calls w w1 = pre" by (rule new_calls_append)
    moreover have "new_calls w w' = pre @ lp" using pre lp(1) by (simp add: new_calls_def)
    ultimately have "length (new_calls w w') = length (new_calls w w1) + length lp" by simp
    with setup_world[OF s] l lp(1) show ?thesis by simp
  qed
qed

lemma free_names_fresh:
  assumes "free_names w sfx = n # rest"
  shows "n \<in> set (tmp_names w) \<and> files w (n @ sfx) = None"
  using dropWhile_Cons_fresh[OF assms[unfolded free_names_def]] by simp

lemma run_Inr_full:
  assumes "run_pcie_model M pv la aw ec mp mr rc es w = (Inr out, w')"
  shows "\<exists>a e m r c cfg ecfg df.
     py_int aw = Inr a \<and> py_int ec = Inr e \<and> py_int mp = Inr m \<and> py_int mr = Inr r \<and>
     py_int rc = Inr c \<and> pcie_Cfg M pv la a e m r c = Inr cfg \<and> eth_Cfg M es = Inr ecfg \<and>
     compute_series M pv la aw ec mp mr rc es w =
       (Inr (config_lines M cfg,
             series_of M cfg (BW_Spec (TLP_bw cfg) (TLP_bw cfg) BW_RAW) ecfg sweep_sizes), w') \<and>
     new_calls w w' =
       [Call_pcie_Cfg pv la a e m r c, Call_eth_Cfg es,
        Call_BW_Spec (TLP_bw cfg) (TLP_bw cfg) BW_RAW] @
       concat (map (row_calls cfg (BW_Spec (TLP_bw cfg) (TLP_bw cfg) BW_RAW) ecfg) sweep_sizes) \<and>
     (\<forall>s\<in>set sweep_sizes. rows_ok M cfg (BW_Spec (TLP_bw cfg) (TLP_bw cfg) BW_RAW) ecfg s) \<and>
     make_table (series_of M cfg (BW_Spec (TLP_bw cfg) (TLP_bw cfg) BW_RAW) ecfg sweep_sizes) es
       = Inr df \<and>
     out = (join_lines (config_lines M cfg),
            make_figure (series_of M cfg (BW_Spec (TLP_bw cfg) (TLP_bw cfg) BW_RAW) ecfg sweep_sizes) es,
            reset_index_drop (iloc_step 64 df))"
proof -
  from run_Inr_parts[OF assms] obtain info cfg ecfg w1 ser df where
    s: "run_setup M pv la aw ec mp mr rc es w
       = (Inr (info, cfg, ecfg, BW_Spec (TLP_bw cfg) (TLP_bw cfg) BW_RAW), w1)"
    and sw: "sweep M cfg (BW_Spec (TLP_bw cfg) (TLP_bw cfg) BW_RAW) ecfg sweep_sizes empty_series w1
       = (Inr ser, w')"
    and c: "compute_series M pv la aw ec mp mr rc es w = (Inr (info, ser), w')"
    and d: "make_table ser es = Inr df"
      "out = (join_lines info, make_figure ser es, reset_index_drop (iloc_step 64 df))"
    by blast
  let ?bw = "BW_Spec (TLP_bw cfg) (TLP_bw cfg) BW_RAW"
  from setup_Inr[OF s] obtain a e m r c where
    p: "py_int aw = Inr a" "py_int ec = Inr e" "py_int mp = Inr m" "py_int mr = Inr r"
      "py_int rc = Inr c" "pcie_Cfg M pv la a e m r c = Inr cfg" "eth_Cfg M es = Inr ecfg"
      "info = config_lines M cfg"
    and c1: "calls w1 = calls w @ [Call_pcie_Cfg pv la a e m r c, Call_eth_Cfg es,
                 Call_BW_Spec (TLP_bw cfg) (TLP_bw cfg) BW_RAW]"
    by blast
  from emitsD[OF emits_sweep sw]
  have "calls w' = calls w1 @ concat (map (row_calls cfg ?bw ecfg) sweep_sizes)" by auto
  with c1 have n: "new_calls w w' =
       [Call_pcie_Cfg pv la a e m r c, Call_eth_Cfg es,
        Call_BW_Spec (TLP_bw cfg) (TLP_bw cfg) BW_RAW] @
       concat (map (row_calls cfg ?bw ecfg) sweep_sizes)"
    by (simp add: new_calls_def)
  from sweep_series[OF sw] have
    ok: "\<forall>s\<in>set sweep_sizes. rows_ok M cfg ?bw ecfg s"
    and ser: "ser = series_of M cfg ?bw ecfg sweep_sizes" by simp_all
  from p c n ok d show ?thesis unfolding ser by blast
qed

lemma series_of_nth:
  assumes "i < length szs"
  shows "sizes (series_of M c b e szs) ! i = szs ! i"
    and "wr_bw_values (series_of M c b e szs) ! i = tx_eff (projr (mem_bw_write M c b (szs ! i - 4)))"
    and "rd_bw_values (series_of M c b e szs) ! i = rx_eff (projr (mem_bw_read M c b (szs ! i - 4)))"
    and "rdwr_bw_values (series_of M c b e szs) ! i = tx_eff (projr (mem_bw_read_write M c b (szs ! i - 4)))"
    and "eth_bw_values (series_of M c b e szs) ! i = projr (eth_bps_ex M e (szs ! i - 4)) / 1000000000"
    and "simple_nic_bi_values (series_of M c b e szs) ! i
           = tx_eff (projr (simple_nic_bw M c b DIR_BOTH (szs ! i - 4)))"
    and "kernel_nic_bi_values (series_of M c b e szs) ! i
           = tx_eff (projr (niantic_bw M c b DIR_BOTH (szs ! i - 4) None))"
    and "pmd_nic_bi_values (series_of M c b e szs) ! i
           = tx_eff (projr (niantic_bw M c b DIR_BOTH (szs ! i - 4) (Some ''PMD'')))"
  using assms by (simp_all add: series_of_def)

lemma series_of_lengths:
  "length (sizes (series_of M c b e szs)) = length szs"
  "length (wr_bw_values (series_of M c b e szs)) = length szs"
  "length (rd_bw_values (series_of M c b e szs)) = length szs"
  "length (rdwr_bw_values (series_of M c b e szs)) = length szs"
  "length (eth_bw_values (series_of M c b e szs)) = length szs"
  "length (simple_nic_bi_values (series_of M c b e szs)) = length szs"
  "length (kernel_nic_bi_values (series_of M c b e szs)) = length szs"
  "length (pmd_nic_bi_values (series_of M c b e szs)) = length szs"
  by (simp_all add: series_of_def)

lemma series_of_row:
  assumes "i < length szs" and "rows_ok M cfg b ecfg (szs ! i)"
  shows "\<exists>wr rd rdwr bps simple kernel pmd.
   mem_bw_write M cfg b (szs ! i - 4) = Inr wr \<and>
   mem_bw_read M cfg b (szs ! i - 4) = Inr rd \<and>
   mem_bw_read_write M cfg b (szs ! i - 4) = Inr rdwr \<and>
   eth_bps_ex M ecfg (szs ! i - 4) = Inr bps \<and>
   simple_nic_bw M cfg b DIR_BOTH (szs ! i - 4) = Inr simple \<and>
   niantic_bw M cfg b DIR_BOTH (szs ! i - 4) None = Inr kernel \<and>
   niantic_bw M cfg b DIR_BOTH (szs ! i - 4) (Some ''PMD'') = Inr pmd \<and>
   sizes (series_of M cfg b ecfg szs) ! i = szs ! i \<and>
   wr_bw_values (series_of M cfg b ecfg szs) ! i = tx_eff wr \<and>
   rd_bw_values (series_of M cfg b ecfg szs) ! i = rx_eff rd \<and>
   rdwr_bw_values (series_of M cfg b ecfg szs) ! i = tx_eff rdwr \<and>
   eth_bw_values (series_of M cfg b ecfg szs) ! i = bps / 1000000000 \<and>
   simple_nic_bi_values (series_of M cfg b ecfg szs) ! i = tx_eff simple \<and>
   kernel_nic_bi_values (series_of M cfg b ecfg szs) ! i = tx_eff kernel \<and>
   pmd_nic_bi_values (series_of M cfg b ecfg szs) ! i = tx_eff pmd"
proof -
  from rows_okD[OF assms(2)] obtain wr rd rdwr bps simple kernel pmd where
    r: "mem_bw_write M cfg b (szs ! i - 4) = Inr wr"
       "mem_bw_read M cfg b (szs ! i - 4) = Inr rd"
       "mem_bw_read_write M cfg b (szs ! i - 4) = Inr rdwr"
       "eth_bps_ex M ecfg (szs ! i - 4) = Inr bps"
       "simple_nic_bw M cfg b DIR_BOTH (szs ! i - 4) = Inr simple"
       "niantic_bw M cfg b DIR_BOTH (szs ! i - 4) None = Inr kernel"
       "niantic_bw M cfg b DIR_BOTH (szs ! i - 4) (Some ''PMD'') = Inr pmd"
    by blast
  show ?thesis
    using r by (simp add: series_of_nth[OF assms(1)])
qed

lemma setup_bw_calls:
  assumes "run_setup M pv la aw ec mp mr rc es w = (r, w1)"
  shows "length (filter is_BW_Spec_call (new_calls w w1)) \<le> 1"
  using assms unfolding run_setup_def call_defs Let_def new_calls_def
  by (auto simp: bindP_def liftP_def invoke_def returnP_def NamedTemporaryFile_def
      split: sum.splits prod.splits list.splits)

lemma no_bw_in_row_calls: "filter is_BW_Spec_call (concat (map (row_calls c b e) szs)) = []"
  by (induction szs) (simp_all add: row_calls_def)

lemma run_bw_calls:
  assumes "run_pcie_model M pv la aw ec mp mr rc es w = (r, w')"
  shows "length (filter is_BW_Spec_call (new_calls w w')) \<le> 1"
proof -
  let ?c = "compute_series M pv la aw ec mp mr rc es w"
  have w': "snd ?c = w'" using run_snd[of M pv la aw ec mp mr rc es w] assms by simp
  have c: "?c = (fst ?c, w')" using w' by (metis prod.collapse)
  from compute_any[OF c] show ?thesis
  proof (elim disjE exE conjE)
    fix e assume "run_setup M pv la aw ec mp mr rc es w = (Inl e, w')"
    then show ?thesis by (rule setup_bw_calls)
  next
    fix info cfg ecfg bw w1 rs
    assume s: "run_setup M pv la aw ec mp mr rc es w = (Inr (info, cfg, ecfg, bw), w1)"
      and sw: "sweep M cfg bw ecfg sweep_sizes empty_series w1 = (rs, w')"
    from emitsD[OF emits_sweep sw] obtain lp where
      lp: "w' = w1\<lparr>calls := calls w1 @ lp\<rparr>"
        "prefix lp (concat (map (row_calls cfg bw ecfg) sweep_sizes))" by blast
    from lp(2) have "set lp \<subseteq> set (concat (map (row_calls cfg bw ecfg) sweep_sizes))"
      by (rule set_mono_prefix)
    moreover have "\<forall>ev\<in>set (concat (map (row_calls cfg bw ecfg) sweep_sizes)). \<not> is_BW_Spec_call ev"
      using no_bw_in_row_calls[of cfg bw ecfg sweep_sizes] by (simp only: filter_empty_conv)
    ultimately have f: "filter is_BW_Spec_call lp = []" by (auto simp: filter_empty_conv)
    from setup_any[OF s] obtain pre where pre: "calls w1 = calls w @ pre" by blast
    then have "new_calls w w1 = pre" by (rule new_calls_append)
    moreover have "new_calls w w' = pre @ lp" using pre lp(1) by (simp add: new_calls_def)
    ultimately have "filter is_BW_Spec_call (new_calls w w') = filter is_BW_Spec_call (new_calls w w1)"
      using f by simp
    with setup_bw_calls[OF s] show ?thesis by simp
  qed
qed

lemma stub_reaches:
  "reaches_tmpfile stub_model ''gen3'' ''x8'' ''64'' ''0'' ''256'' ''512'' ''64'' ''40GigE''"
  "\<not> reaches_tmpfile stub_model ''gen3'' ''x8'' ''64'' ''0'' ''300'' ''512'' ''64'' ''40GigE''"
  "free_names world0 ''.dat'' = [''/tmp/tmpa1b2c3d4'']"
  by (simp_all add: reaches_tmpfile_def py_int_ui stub_model_def free_names_def world0_def)






section \<open>Claim C1: the bandwidth basis of a run\<close>

text \<open>
  Claim C1, as amended. The driver builds its basis by \<open>BW_Spec(tlp_bw, tlp_bw, BW_RAW)\<close>
  with \<open>tlp_bw = pciecfg.TLP_bw\<close>. In every run, whatever its outcome, every per-size call
  that takes a basis is handed a basis whose two reference bandwidths are the TLP-layer
  bandwidth of the configuration handed with it and whose mode is \<open>BW_RAW\<close>, all of them the
  same one, and \<open>BW_Spec\<close> is called at most once. In a run that returns it is called exactly
  once, with the TLP-layer bandwidth of the configuration \<open>pcie.Cfg\<close> returned, and each of
  the six series computed from a basis holds, for every size, what the function of the
  package returns for that configuration, the basis with these three fields, and the size
  minus 4.
\<close>

theorem basis_is_tlp_bandwidth:
  assumes "run_pcie_model M pv la aw ec mp mr rc es w = (r, w')"
  shows "((\<forall>ev\<in>set (new_calls w w'). \<forall>c b. basis_of ev = Some (c, b) \<longrightarrow>
            rx_bw b = TLP_bw c \<and> tx_bw b = TLP_bw c \<and> bw_type b = BW_RAW) \<and>
         (\<forall>ev\<in>set (new_calls w w'). \<forall>ev'\<in>set (new_calls w w').
            basis_of ev \<noteq> None \<longrightarrow> basis_of ev' \<noteq> None \<longrightarrow> basis_of ev = basis_of ev')) \<and>
         length (filter is_BW_Spec_call (new_calls w w')) \<le> 1 \<and>
         (\<forall>x. r = Inr x \<longrightarrow>
            (\<exists>a e m r' c cfg ecfg info ser.
          py_int aw = Inr a \<and> py_int ec = Inr e \<and> py_int mp = Inr m \<and> py_int mr = Inr r' \<and>
          py_int rc = Inr c \<and> pcie_Cfg M pv la a e m r' c = Inr cfg \<and> eth_Cfg M es = Inr ecfg \<and>
          compute_series M pv la aw ec mp mr rc es w = (Inr (info, ser), w') \<and>
          filter is_BW_Spec_call (new_calls w w') = [Call_BW_Spec (TLP_bw cfg) (TLP_bw cfg) BW_RAW] \<and>
          wr_bw_values ser = map (\<lambda>s. tx_eff (projr (mem_bw_write M cfg \<lparr>rx_bw = TLP_bw cfg, tx_bw = TLP_bw cfg, bw_type = BW_RAW\<rparr> (s - 4)))) sweep_sizes \<and>
          rd_bw_values ser = map (\<lambda>s. rx_eff (projr (mem_bw_read M cfg \<lparr>rx_bw = TLP_bw cfg, tx_bw = TLP_bw cfg, bw_type = BW_RAW\<rparr> (s - 4)))) sweep_sizes \<and>
          rdwr_bw_values ser = map (\<lambda>s. tx_eff (projr (mem_bw_read_write M cfg \<lparr>rx_bw = TLP_bw cfg, tx_bw = TLP_bw cfg, bw_type = BW_RAW\<rparr> (s - 4)))) sweep_sizes \<and>
          simple_nic_bi_values ser = map (\<lambda>s. tx_eff (projr (simple_nic_bw M cfg \<lparr>rx_bw = TLP_bw cfg, tx_bw = TLP_bw cfg, bw_type = BW_RAW\<rparr> DIR_BOTH (s - 4)))) sweep_sizes \<and>
          kernel_nic_bi_values ser = map (\<lambda>s. tx_eff (projr (niantic_bw M cfg \<lparr>rx_bw = TLP_bw cfg, tx_bw = TLP_bw cfg, bw_type = BW_RAW\<rparr> DIR_BOTH (s - 4) None))) sweep_sizes \<and>
          pmd_nic_bi_values ser = map (\<lambda>s. tx_eff (projr (niantic_bw M cfg \<lparr>rx_bw = TLP_bw cfg, tx_bw = TLP_bw cfg, bw_type = BW_RAW\<rparr> DIR_BOTH (s - 4) (Some ''PMD'')))) sweep_sizes))"
  (is "?EV \<and> ?ONE \<and> ?VAL")
proof -
  from run_trace[OF assms] obtain pre lp cfg ecfg where
    t: "new_calls w w' = pre @ lp"
      "\<forall>ev\<in>set pre. payload_of ev = None \<and> basis_of ev = None"
      "prefix lp (concat (map (row_calls cfg (BW_Spec (TLP_bw cfg) (TLP_bw cfg) BW_RAW) ecfg) sweep_sizes))"
    by blast
  let ?bw = "BW_Spec (TLP_bw cfg) (TLP_bw cfg) BW_RAW"
  have b: "basis_of ev = None \<or> basis_of ev = Some (cfg, ?bw)" if "ev \<in> set (new_calls w w')" for ev
  proof (cases "ev \<in> set pre")
    case True
    with t(2) show ?thesis by simp
  next
    case False
    with that t(1) have "ev \<in> set lp" by simp
    moreover from t(3) have "set lp \<subseteq> set (concat (map (row_calls cfg ?bw ecfg) sweep_sizes))"
      by (rule set_mono_prefix)
    ultimately have "ev \<in> set (concat (map (row_calls cfg ?bw ecfg) sweep_sizes))" by blast
    from in_row_calls[OF this] show ?thesis by blast
  qed
  have "\<forall>ev\<in>set (new_calls w w'). \<forall>c b. basis_of ev = Some (c, b) \<longrightarrow>
            rx_bw b = TLP_bw c \<and> tx_bw b = TLP_bw c \<and> bw_type b = BW_RAW"
    using b by (fastforce simp: BW_Spec_def)
  moreover have "\<forall>ev\<in>set (new_calls w w'). \<forall>ev'\<in>set (new_calls w w').
            basis_of ev \<noteq> None \<longrightarrow> basis_of ev' \<noteq> None \<longrightarrow> basis_of ev = basis_of ev'"
    using b by metis
  ultimately have ev: "?EV" by blast

  have one: "?ONE" using assms by (rule run_bw_calls)
  have "?VAL"
  proof (intro allI impI)
    fix x assume "r = Inr x"
    with assms have rx: "run_pcie_model M pv la aw ec mp mr rc es w = (Inr x, w')" by simp
    from run_Inr_full[OF rx] obtain a e m r' c cfg ecfg where
      p: "py_int aw = Inr a" "py_int ec = Inr e" "py_int mp = Inr m" "py_int mr = Inr r'"
        "py_int rc = Inr c" "pcie_Cfg M pv la a e m r' c = Inr cfg" "eth_Cfg M es = Inr ecfg"
      and c: "compute_series M pv la aw ec mp mr rc es w =
         (Inr (config_lines M cfg, series_of M cfg (BW_Spec (TLP_bw cfg) (TLP_bw cfg) BW_RAW) ecfg sweep_sizes), w')"
      and n: "new_calls w w' =
       [Call_pcie_Cfg pv la a e m r' c, Call_eth_Cfg es,
        Call_BW_Spec (TLP_bw cfg) (TLP_bw cfg) BW_RAW] @
       concat (map (row_calls cfg (BW_Spec (TLP_bw cfg) (TLP_bw cfg) BW_RAW) ecfg) sweep_sizes)"
      by blast
    let ?ser = "series_of M cfg (BW_Spec (TLP_bw cfg) (TLP_bw cfg) BW_RAW) ecfg sweep_sizes"
    have bw: "(BW_Spec (TLP_bw cfg) (TLP_bw cfg) BW_RAW) = \<lparr>rx_bw = TLP_bw cfg, tx_bw = TLP_bw cfg, bw_type = BW_RAW\<rparr>" by (simp add: BW_Spec_def)
    have f: "filter is_BW_Spec_call (new_calls w w') = [Call_BW_Spec (TLP_bw cfg) (TLP_bw cfg) BW_RAW]"
      unfolding n by (simp add: no_bw_in_row_calls)
    have ser: "wr_bw_values ?ser = map (\<lambda>s. tx_eff (projr (mem_bw_write M cfg \<lparr>rx_bw = TLP_bw cfg, tx_bw = TLP_bw cfg, bw_type = BW_RAW\<rparr> (s - 4)))) sweep_sizes"
      "rd_bw_values ?ser = map (\<lambda>s. rx_eff (projr (mem_bw_read M cfg \<lparr>rx_bw = TLP_bw cfg, tx_bw = TLP_bw cfg, bw_type = BW_RAW\<rparr> (s - 4)))) sweep_sizes"
      "rdwr_bw_values ?ser = map (\<lambda>s. tx_eff (projr (mem_bw_read_write M cfg \<lparr>rx_bw = TLP_bw cfg, tx_bw = TLP_bw cfg, bw_type = BW_RAW\<rparr> (s - 4)))) sweep_sizes"
      "simple_nic_bi_values ?ser = map (\<lambda>s. tx_eff (projr (simple_nic_bw M cfg \<lparr>rx_bw = TLP_bw cfg, tx_bw = TLP_bw cfg, bw_type = BW_RAW\<rparr> DIR_BOTH (s - 4)))) sweep_sizes"
      "kernel_nic_bi_values ?ser = map (\<lambda>s. tx_eff (projr (niantic_bw M cfg \<lparr>rx_bw = TLP_bw cfg, tx_bw = TLP_bw cfg, bw_type = BW_RAW\<rparr> DIR_BOTH (s - 4) None))) sweep_sizes"
      "pmd_nic_bi_values ?ser = map (\<lambda>s. tx_eff (projr (niantic_bw M cfg \<lparr>rx_bw = TLP_bw cfg, tx_bw = TLP_bw cfg, bw_type = BW_RAW\<rparr> DIR_BOTH (s - 4) (Some ''PMD'')))) sweep_sizes"
      unfolding bw[symmetric] by (simp_all add: series_of_def)
    from p c f ser show "\<exists>a e m r' c cfg ecfg info ser.
          py_int aw = Inr a \<and> py_int ec = Inr e \<and> py_int mp = Inr m \<and> py_int mr = Inr r' \<and>
          py_int rc = Inr c \<and> pcie_Cfg M pv la a e m r' c = Inr cfg \<and> eth_Cfg M es = Inr ecfg \<and>
          compute_series M pv la aw ec mp mr rc es w = (Inr (info, ser), w') \<and>
          filter is_BW_Spec_call (new_calls w w') = [Call_BW_Spec (TLP_bw cfg) (TLP_bw cfg) BW_RAW] \<and>
          wr_bw_values ser = map (\<lambda>s. tx_eff (projr (mem_bw_write M cfg \<lparr>rx_bw = TLP_bw cfg, tx_bw = TLP_bw cfg, bw_type = BW_RAW\<rparr> (s - 4)))) sweep_sizes \<and>
          rd_bw_values ser = map (\<lambda>s. rx_eff (projr (mem_bw_read M cfg \<lparr>rx_bw = TLP_bw cfg, tx_bw = TLP_bw cfg, bw_type = BW_RAW\<rparr> (s - 4)))) sweep_sizes \<and>
          rdwr_bw_values ser = map (\<lambda>s. tx_eff (projr (mem_bw_read_write M cfg \<lparr>rx_bw = TLP_bw cfg, tx_bw = TLP_bw cfg, bw_type = BW_RAW\<rparr> (s - 4)))) sweep_sizes \<and>
          simple_nic_bi_values ser = map (\<lambda>s. tx_eff (projr (simple_nic_bw M cfg \<lparr>rx_bw = TLP_bw cfg, tx_bw = TLP_bw cfg, bw_type = BW_RAW\<rparr> DIR_BOTH (s - 4)))) sweep_sizes \<and>
          kernel_nic_bi_values ser = map (\<lambda>s. tx_eff (projr (niantic_bw M cfg \<lparr>rx_bw = TLP_bw cfg, tx_bw = TLP_bw cfg, bw_type = BW_RAW\<rparr> DIR_BOTH (s - 4) None))) sweep_sizes \<and>
          pmd_nic_bi_values ser = map (\<lambda>s. tx_eff (projr (niantic_bw M cfg \<lparr>rx_bw = TLP_bw cfg, tx_bw = TLP_bw cfg, bw_type = BW_RAW\<rparr> DIR_BOTH (s - 4) (Some ''PMD'')))) sweep_sizes"
      by blast
  qed
  with ev one show ?thesis by blast
qed

theorem basis_is_tlp_bandwidth_witness:
  "Call_mem_write stub_cfg (BW_Spec 7 7 BW_RAW) 60 \<in> set (new_calls world0 (snd (run_pcie_model stub_model ''gen3'' ''x8'' ''64'' ''0'' ''256'' ''512'' ''64'' ''40GigE'' world0)))
   \<and> rx_bw (BW_Spec 7 7 BW_RAW) = TLP_bw stub_cfg \<and> tx_bw (BW_Spec 7 7 BW_RAW) = TLP_bw stub_cfg
   \<and> bw_type (BW_Spec 7 7 BW_RAW) = BW_RAW
   \<and> filter is_BW_Spec_call (new_calls world0 (snd (run_pcie_model stub_model ''gen3'' ''x8'' ''64'' ''0'' ''256'' ''512'' ''64'' ''40GigE'' world0))) = [Call_BW_Spec 7 7 BW_RAW]"
proof -
  let ?run = "run_pcie_model stub_model ''gen3'' ''x8'' ''64'' ''0'' ''256'' ''512'' ''64'' ''40GigE'' world0"
  from stub_run obtain out w' where r: "?run = (Inr out, w')" by blast
  note T = basis_is_tlp_bandwidth[OF r]
  have m: "Call_mem_write stub_cfg (BW_Spec 7 7 BW_RAW) 60 \<in> set (new_calls world0 w')"
    using stub_run_mem_write r by simp
  have 2: "basis_of (Call_mem_write stub_cfg (BW_Spec 7 7 BW_RAW) 60) = Some (stub_cfg, BW_Spec 7 7 BW_RAW)"
    by simp
  from T m 2 have b: "rx_bw (BW_Spec 7 7 BW_RAW) = TLP_bw stub_cfg \<and>
      tx_bw (BW_Spec 7 7 BW_RAW) = TLP_bw stub_cfg \<and> bw_type (BW_Spec 7 7 BW_RAW) = BW_RAW"
    by blast
  from T obtain a e m r' c cfg where
    f: "py_int ''64'' = Inr a" "py_int ''0'' = Inr e" "py_int ''256'' = Inr m"
       "py_int ''512'' = Inr r'" "py_int ''64'' = Inr c"
       "pcie_Cfg stub_model ''gen3'' ''x8'' a e m r' c = Inr cfg"
       "filter is_BW_Spec_call (new_calls world0 w') = [Call_BW_Spec (TLP_bw cfg) (TLP_bw cfg) BW_RAW]"
    by blast
  from f(1-6) have cfg: "cfg = stub_cfg"
    by (simp add: py_int_ui stub_model_def stub_cfg_def split: if_splits)
  from f(7) have "filter is_BW_Spec_call (new_calls world0 w') = [Call_BW_Spec 7 7 BW_RAW]"
    by (simp add: cfg stub_cfg_def)
  with m b r show ?thesis by simp
qed

text \<open>
  The claim as stated, that the basis built with mode \<open>BW_RAW\<close> carries the raw bandwidth
  of the configuration, fails on the run with the default choices of the interface: the
  fourth call of the run, the first per-size call, receives a basis of mode \<open>BW_RAW\<close>
  whose reference bandwidths are 7, the TLP-layer bandwidth of the configuration, whose
  raw bandwidth is 8.
\<close>

theorem basis_is_raw_bandwidth_counterexample:
  "basis_of (new_calls world0
      (snd (run_pcie_model stub_model ''gen3'' ''x8'' ''64'' ''0'' ''256'' ''512'' ''64'' ''40GigE''
              world0)) ! 3) = Some (stub_cfg, BW_Spec 7 7 BW_RAW) \<and>
   bw_type (BW_Spec 7 7 BW_RAW) = BW_RAW \<and>
   rx_bw (BW_Spec 7 7 BW_RAW) = 7 \<and> tx_bw (BW_Spec 7 7 BW_RAW) = 7 \<and>
   TLP_bw stub_cfg = 7 \<and> RAW_bw stub_cfg = 8 \<and>
   rx_bw (BW_Spec 7 7 BW_RAW) \<noteq> RAW_bw stub_cfg"
  by (simp add: stub_run_call_3) (simp add: BW_Spec_def stub_cfg_def)

section \<open>Claim C2: every per-size call receives the gross size minus 4\<close>

text \<open>
  Claim C2. In every run, whatever its outcome, the per-size calls of the trace are an
  initial part of the seven calls for the sizes 64, 65, ..., 1500 in turn (\<open>mem_bw.write\<close>,
  \<open>mem_bw.read\<close>, \<open>mem_bw.read_write\<close>, \<open>bps_ex\<close>, \<open>simple_nic.bw\<close> and \<open>niantic.bw\<close>
  twice), all of them when the run returns, and the payload of each is \<open>s - 4\<close> for a gross
  size \<open>s\<close> between 64 and 1500. In a run that returns, entry \<open>i\<close> of each series is taken
  from the result the function of the package gives for the payload \<open>(64 + i) - 4\<close>: the
  callee receives the size already decremented.
\<close>

theorem payload_is_size_minus_4:
  assumes "run_pcie_model M pv la aw ec mp mr rc es w = (r, w')"
  shows "((\<exists>cfg bw ecfg.
            prefix (size_calls (new_calls w w')) (concat (map (row_calls cfg bw ecfg) [64..1500])) \<and>
            (\<forall>x. r = Inr x \<longrightarrow>
               size_calls (new_calls w w') = concat (map (row_calls cfg bw ecfg) [64..1500]))) \<and>
         (\<forall>ev\<in>set (new_calls w w'). \<forall>n. payload_of ev = Some n \<longrightarrow> (\<exists>s\<in>{64..1500}. n = s - 4))) \<and>
         (\<forall>x. r = Inr x \<longrightarrow>
            (\<exists>a e m r' c cfg ecfg info ser.
          py_int aw = Inr a \<and> py_int ec = Inr e \<and> py_int mp = Inr m \<and> py_int mr = Inr r' \<and>
          py_int rc = Inr c \<and> pcie_Cfg M pv la a e m r' c = Inr cfg \<and> eth_Cfg M es = Inr ecfg \<and>
          compute_series M pv la aw ec mp mr rc es w = (Inr (info, ser), w') \<and>
          (\<forall>i<1437.
            (\<exists>wr rd rdwr bps simple kernel pmd.
               mem_bw_write M cfg (BW_Spec (TLP_bw cfg) (TLP_bw cfg) BW_RAW) ((64 + int i) - 4) = Inr wr \<and>
               mem_bw_read M cfg (BW_Spec (TLP_bw cfg) (TLP_bw cfg) BW_RAW) ((64 + int i) - 4) = Inr rd \<and>
               mem_bw_read_write M cfg (BW_Spec (TLP_bw cfg) (TLP_bw cfg) BW_RAW) ((64 + int i) - 4) = Inr rdwr \<and>
               eth_bps_ex M ecfg ((64 + int i) - 4) = Inr bps \<and>
               simple_nic_bw M cfg (BW_Spec (TLP_bw cfg) (TLP_bw cfg) BW_RAW) DIR_BOTH ((64 + int i) - 4) = Inr simple \<and>
               niantic_bw M cfg (BW_Spec (TLP_bw cfg) (TLP_bw cfg) BW_RAW) DIR_BOTH ((64 + int i) - 4) None = Inr kernel \<and>
               niantic_bw M cfg (BW_Spec (TLP_bw cfg) (TLP_bw cfg) BW_RAW) DIR_BOTH ((64 + int i) - 4) (Some ''PMD'') = Inr pmd \<and>
               sizes ser ! i = (64 + int i) \<and>
               wr_bw_values ser ! i = tx_eff wr \<and>
               rd_bw_values ser ! i = rx_eff rd \<and>
               rdwr_bw_values ser ! i = tx_eff rdwr \<and>
               eth_bw_values ser ! i = bps / 1000000000 \<and>
               simple_nic_bi_values ser ! i = tx_eff simple \<and>
               kernel_nic_bi_values ser ! i = tx_eff kernel \<and>
               pmd_nic_bi_values ser ! i = tx_eff pmd))))"
  (is "?EV \<and> ?VAL")
proof -
  from run_trace[OF assms] obtain pre lp cfg ecfg where
    t: "new_calls w w' = pre @ lp"
      "\<forall>ev\<in>set pre. payload_of ev = None \<and> basis_of ev = None"
      "prefix lp (concat (map (row_calls cfg (BW_Spec (TLP_bw cfg) (TLP_bw cfg) BW_RAW) ecfg) sweep_sizes))"
      "\<forall>x. r = Inr x \<longrightarrow>
         lp = concat (map (row_calls cfg (BW_Spec (TLP_bw cfg) (TLP_bw cfg) BW_RAW) ecfg) sweep_sizes)"
    by blast
  let ?full = "concat (map (row_calls cfg (BW_Spec (TLP_bw cfg) (TLP_bw cfg) BW_RAW) ecfg) sweep_sizes)"
  have lp: "\<exists>s\<in>set sweep_sizes. payload_of ev = Some (s - 4)" if "ev \<in> set lp" for ev
  proof -
    from t(3) have "set lp \<subseteq> set ?full" by (rule set_mono_prefix)
    with that have "ev \<in> set ?full" by blast
    from in_row_calls[OF this] show ?thesis by blast
  qed
  have "filter (\<lambda>ev. payload_of ev \<noteq> None) pre = []" using t(2) by (simp add: filter_empty_conv)
  moreover have "filter (\<lambda>ev. payload_of ev \<noteq> None) lp = lp"
    using lp by (auto simp: filter_id_conv)
  ultimately have sc: "size_calls (new_calls w w') = lp" by (simp add: size_calls_def t(1))
  have "\<forall>ev\<in>set (new_calls w w'). \<forall>n. payload_of ev = Some n \<longrightarrow> (\<exists>s\<in>{64..1500}. n = s - 4)"
  proof (intro ballI allI impI)
    fix ev n assume ev: "ev \<in> set (new_calls w w')" "payload_of ev = Some n"
    with t(1,2) have "ev \<in> set lp" by auto
    from lp[OF this] ev(2) show "\<exists>s\<in>{64..1500}. n = s - 4"
      unfolding set_sweep_sizes by auto
  qed
  moreover have "prefix (size_calls (new_calls w w')) ?full \<and>
            (\<forall>x. r = Inr x \<longrightarrow> size_calls (new_calls w w') = ?full)"
    using sc t(3,4) by simp
  ultimately have ev: "?EV" unfolding sweep_sizes_def by blast

  have "?VAL"
  proof (intro allI impI)
    fix x assume "r = Inr x"
    with assms have rx: "run_pcie_model M pv la aw ec mp mr rc es w = (Inr x, w')" by simp
    from run_Inr_full[OF rx] obtain a e m r' c cfg ecfg where
      p: "py_int aw = Inr a" "py_int ec = Inr e" "py_int mp = Inr m" "py_int mr = Inr r'"
        "py_int rc = Inr c" "pcie_Cfg M pv la a e m r' c = Inr cfg" "eth_Cfg M es = Inr ecfg"
      and c: "compute_series M pv la aw ec mp mr rc es w =
         (Inr (config_lines M cfg, series_of M cfg (BW_Spec (TLP_bw cfg) (TLP_bw cfg) BW_RAW) ecfg sweep_sizes), w')"
      and ok: "\<forall>s\<in>set sweep_sizes. rows_ok M cfg (BW_Spec (TLP_bw cfg) (TLP_bw cfg) BW_RAW) ecfg s"
      by blast
    let ?ser = "series_of M cfg (BW_Spec (TLP_bw cfg) (TLP_bw cfg) BW_RAW) ecfg sweep_sizes"
    have rows: "\<forall>i<1437.
            (\<exists>wr rd rdwr bps simple kernel pmd.
               mem_bw_write M cfg (BW_Spec (TLP_bw cfg) (TLP_bw cfg) BW_RAW) ((64 + int i) - 4) = Inr wr \<and>
               mem_bw_read M cfg (BW_Spec (TLP_bw cfg) (TLP_bw cfg) BW_RAW) ((64 + int i) - 4) = Inr rd \<and>
               mem_bw_read_write M cfg (BW_Spec (TLP_bw cfg) (TLP_bw cfg) BW_RAW) ((64 + int i) - 4) = Inr rdwr \<and>
               eth_bps_ex M ecfg ((64 + int i) - 4) = Inr bps \<and>
               simple_nic_bw M cfg (BW_Spec (TLP_bw cfg) (TLP_bw cfg) BW_RAW) DIR_BOTH ((64 + int i) - 4) = Inr simple \<and>
               niantic_bw M cfg (BW_Spec (TLP_bw cfg) (TLP_bw cfg) BW_RAW) DIR_BOTH ((64 + int i) - 4) None = Inr kernel \<and>
               niantic_bw M cfg (BW_Spec (TLP_bw cfg) (TLP_bw cfg) BW_RAW) DIR_BOTH ((64 + int i) - 4) (Some ''PMD'') = Inr pmd \<and>
               sizes ?ser ! i = (64 + int i) \<and>
               wr_bw_values ?ser ! i = tx_eff wr \<and>
               rd_bw_values ?ser ! i = rx_eff rd \<and>
               rdwr_bw_values ?ser ! i = tx_eff rdwr \<and>
               eth_bw_values ?ser ! i = bps / 1000000000 \<and>
               simple_nic_bi_values ?ser ! i = tx_eff simple \<and>
               kernel_nic_bi_values ?ser ! i = tx_eff kernel \<and>
               pmd_nic_bi_values ?ser ! i = tx_eff pmd)"
    proof (intro allI impI)
      fix i :: nat assume i: "i < 1437"
      then have il: "i < length sweep_sizes" by (simp add: length_sweep_sizes)
      then have "sweep_sizes ! i \<in> set sweep_sizes" by simp
      with ok have "rows_ok M cfg (BW_Spec (TLP_bw cfg) (TLP_bw cfg) BW_RAW) ecfg (sweep_sizes ! i)" by blast
      from series_of_row[OF il this]
      show "(\<exists>wr rd rdwr bps simple kernel pmd.
               mem_bw_write M cfg (BW_Spec (TLP_bw cfg) (TLP_bw cfg) BW_RAW) ((64 + int i) - 4) = Inr wr \<and>
               mem_bw_read M cfg (BW_Spec (TLP_bw cfg) (TLP_bw cfg) BW_RAW) ((64 + int i) - 4) = Inr rd \<and>
               mem_bw_read_write M cfg (BW_Spec (TLP_bw cfg) (TLP_bw cfg) BW_RAW) ((64 + int i) - 4) = Inr rdwr \<and>
               eth_bps_ex M ecfg ((64 + int i) - 4) = Inr bps \<and>
               simple_nic_bw M cfg (BW_Spec (TLP_bw cfg) (TLP_bw cfg) BW_RAW) DIR_BOTH ((64 + int i) - 4) = Inr simple \<and>
               niantic_bw M cfg (BW_Spec (TLP_bw cfg) (TLP_bw cfg) BW_RAW) DIR_BOTH ((64 + int i) - 4) None = Inr kernel \<and>
               niantic_bw M cfg (BW_Spec (TLP_bw cfg) (TLP_bw cfg) BW_RAW) DIR_BOTH ((64 + int i) - 4) (Some ''PMD'') = Inr pmd \<and>
               sizes ?ser ! i = (64 + int i) \<and>
               wr_bw_values ?ser ! i = tx_eff wr \<and>
               rd_bw_values ?ser ! i = rx_eff rd \<and>
               rdwr_bw_values ?ser ! i = tx_eff rdwr \<and>
               eth_bw_values ?ser ! i = bps / 1000000000 \<and>
               simple_nic_bi_values ?ser ! i = tx_eff simple \<and>
               kernel_nic_bi_values ?ser ! i = tx_eff kernel \<and>
               pmd_nic_bi_values ?ser ! i = tx_eff pmd)"
        by (simp only: nth_sweep_sizes[OF i])
    qed
    from p c rows show "\<exists>a e m r' c cfg ecfg info ser.
          py_int aw = Inr a \<and> py_int ec = Inr e \<and> py_int mp = Inr m \<and> py_int mr = Inr r' \<and>
          py_int rc = Inr c \<and> pcie_Cfg M pv la a e m r' c = Inr cfg \<and> eth_Cfg M es = Inr ecfg \<and>
          compute_series M pv la aw ec mp mr rc es w = (Inr (info, ser), w') \<and>
          (\<forall>i<1437.
            (\<exists>wr rd rdwr bps simple kernel pmd.
               mem_bw_write M cfg (BW_Spec (TLP_bw cfg) (TLP_bw cfg) BW_RAW) ((64 + int i) - 4) = Inr wr \<and>
               mem_bw_read M cfg (BW_Spec (TLP_bw cfg) (TLP_bw cfg) BW_RAW) ((64 + int i) - 4) = Inr rd \<and>
               mem_bw_read_write M cfg (BW_Spec (TLP_bw cfg) (TLP_bw cfg) BW_RAW) ((64 + int i) - 4) = Inr rdwr \<and>
               eth_bps_ex M ecfg ((64 + int i) - 4) = Inr bps \<and>
               simple_nic_bw M cfg (BW_Spec (TLP_bw cfg) (TLP_bw cfg) BW_RAW) DIR_BOTH ((64 + int i) - 4) = Inr simple \<and>
               niantic_bw M cfg (BW_Spec (TLP_bw cfg) (TLP_bw cfg) BW_RAW) DIR_BOTH ((64 + int i) - 4) None = Inr kernel \<and>
               niantic_bw M cfg (BW_Spec (TLP_bw cfg) (TLP_bw cfg) BW_RAW) DIR_BOTH ((64 + int i) - 4) (Some ''PMD'') = Inr pmd \<and>
               sizes ser ! i = (64 + int i) \<and>
               wr_bw_values ser ! i = tx_eff wr \<and>
               rd_bw_values ser ! i = rx_eff rd \<and>
               rdwr_bw_values ser ! i = tx_eff rdwr \<and>
               eth_bw_values ser ! i = bps / 1000000000 \<and>
               simple_nic_bi_values ser ! i = tx_eff simple \<and>
               kernel_nic_bi_values ser ! i = tx_eff kernel \<and>
               pmd_nic_bi_values ser ! i = tx_eff pmd))"
      by blast
  qed
  with ev show ?thesis by blast
qed

theorem payload_is_size_minus_4_witness:
  "Call_mem_write stub_cfg (BW_Spec 7 7 BW_RAW) 60 \<in> set (new_calls world0 (snd (run_pcie_model stub_model ''gen3'' ''x8'' ''64'' ''0'' ''256'' ''512'' ''64'' ''40GigE'' world0)))
   \<and> (\<exists>s\<in>{64..1500}. (60::int) = s - 4)
   \<and> (\<exists>info ser w'.
        compute_series stub_model ''gen3'' ''x8'' ''64'' ''0'' ''256'' ''512'' ''64'' ''40GigE'' world0
          = (Inr (info, ser), w') \<and>
        sizes ser ! 0 = 64 \<and>
        wr_bw_values ser ! 0 = tx_eff (projr (mem_bw_write stub_model stub_cfg (BW_Spec 7 7 BW_RAW) 60)) \<and>
        wr_bw_values ser ! 0 = Some 5)"
proof -
  let ?run = "run_pcie_model stub_model ''gen3'' ''x8'' ''64'' ''0'' ''256'' ''512'' ''64'' ''40GigE'' world0"
  have p: "payload_of (Call_mem_write stub_cfg (BW_Spec 7 7 BW_RAW) 60) = Some 60" by simp
  from stub_run obtain out w' where r: "?run = (Inr out, w')" by blast
  note T = payload_is_size_minus_4[OF r]
  have m: "Call_mem_write stub_cfg (BW_Spec 7 7 BW_RAW) 60 \<in> set (new_calls world0 w')"
    using stub_run_mem_write r by simp
  from T m p
  have 1: "\<exists>s\<in>{64..1500}. (60::int) = s - 4" by blast
  from T obtain a e m r' c cfg ecfg info ser where
    f: "py_int ''64'' = Inr a" "py_int ''0'' = Inr e" "py_int ''256'' = Inr m"
       "py_int ''512'' = Inr r'" "py_int ''64'' = Inr c"
       "pcie_Cfg stub_model ''gen3'' ''x8'' a e m r' c = Inr cfg"
       "compute_series stub_model ''gen3'' ''x8'' ''64'' ''0'' ''256'' ''512'' ''64'' ''40GigE'' world0
       = (Inr (info, ser), w')"
    and rows: "\<forall>i<1437.
            (\<exists>wr rd rdwr bps simple kernel pmd.
               mem_bw_write stub_model cfg (BW_Spec (TLP_bw cfg) (TLP_bw cfg) BW_RAW) ((64 + int i) - 4) = Inr wr \<and>
               mem_bw_read stub_model cfg (BW_Spec (TLP_bw cfg) (TLP_bw cfg) BW_RAW) ((64 + int i) - 4) = Inr rd \<and>
               mem_bw_read_write stub_model cfg (BW_Spec (TLP_bw cfg) (TLP_bw cfg) BW_RAW) ((64 + int i) - 4) = Inr rdwr \<and>
               eth_bps_ex stub_model ecfg ((64 + int i) - 4) = Inr bps \<and>
               simple_nic_bw stub_model cfg (BW_Spec (TLP_bw cfg) (TLP_bw cfg) BW_RAW) DIR_BOTH ((64 + int i) - 4) = Inr simple \<and>
               niantic_bw stub_model cfg (BW_Spec (TLP_bw cfg) (TLP_bw cfg) BW_RAW) DIR_BOTH ((64 + int i) - 4) None = Inr kernel \<and>
               niantic_bw stub_model cfg (BW_Spec (TLP_bw cfg) (TLP_bw cfg) BW_RAW) DIR_BOTH ((64 + int i) - 4) (Some ''PMD'') = Inr pmd \<and>
               sizes ser ! i = (64 + int i) \<and>
               wr_bw_values ser ! i = tx_eff wr \<and>
               rd_bw_values ser ! i = rx_eff rd \<and>
               rdwr_bw_values ser ! i = tx_eff rdwr \<and>
               eth_bw_values ser ! i = bps / 1000000000 \<and>
               simple_nic_bi_values ser ! i = tx_eff simple \<and>
               kernel_nic_bi_values ser ! i = tx_eff kernel \<and>
               pmd_nic_bi_values ser ! i = tx_eff pmd)"
    by blast
  from f(1-6) have cfg: "cfg = stub_cfg"
    by (simp add: py_int_ui stub_model_def stub_cfg_def split: if_splits)
  have b: "(BW_Spec (TLP_bw cfg) (TLP_bw cfg) BW_RAW) = BW_Spec 7 7 BW_RAW" by (simp add: cfg stub_cfg_def)
  have "(0::nat) < 1437" by simp
  with rows have "\<exists>wr. mem_bw_write stub_model cfg (BW_Spec (TLP_bw cfg) (TLP_bw cfg) BW_RAW) (64 + int 0 - 4) = Inr wr \<and>
        sizes ser ! 0 = 64 + int 0 \<and> wr_bw_values ser ! 0 = tx_eff wr" by blast
  then obtain wr where wr: "mem_bw_write stub_model stub_cfg (BW_Spec 7 7 BW_RAW) 60 = Inr wr"
      "sizes ser ! 0 = 64" "wr_bw_values ser ! 0 = tx_eff wr"
    unfolding b unfolding cfg by auto
  have "mem_bw_write stub_model stub_cfg (BW_Spec 7 7 BW_RAW) 60
      = Inr \<lparr>rx_eff = Some 5, tx_eff = Some 5\<rparr>"
    by (simp add: stub_model_def stub_res_def BW_Spec_def)
  with wr have "wr_bw_values ser ! 0 = tx_eff (projr (mem_bw_write stub_model stub_cfg (BW_Spec 7 7 BW_RAW) 60))"
    "wr_bw_values ser ! 0 = Some 5" by auto
  with f(7) wr(2) 1 stub_run_mem_write show ?thesis by blast
qed

section \<open>Claim C3: one setup, then one iteration per size\<close>

text \<open>
  Claim C3. A run that returns has made these calls and no other: \<open>pcie.Cfg\<close> once,
  \<open>eth.Cfg\<close> once, \<open>BW_Spec\<close> once, and then for each gross size of 64, ..., 1500 in
  ascending order the seven calls of the loop body once (\<open>niantic.bw\<close> is two of them, in
  kernel mode and in PMD mode). All of them returned. The series of sizes is 64, ..., 1500
  and each of the seven other series is the list of sizes mapped through one function of
  the size alone, the result of the package for the payload \<open>s - 4\<close>; all eight have 1437
  entries.
\<close>

theorem sweep_once_per_size:
  assumes "run_pcie_model M pv la aw ec mp mr rc es w = (Inr out, w')"
  shows "\<exists>a e m r' c cfg ecfg info ser.
          py_int aw = Inr a \<and> py_int ec = Inr e \<and> py_int mp = Inr m \<and> py_int mr = Inr r' \<and>
          py_int rc = Inr c \<and> pcie_Cfg M pv la a e m r' c = Inr cfg \<and> eth_Cfg M es = Inr ecfg \<and>
          compute_series M pv la aw ec mp mr rc es w = (Inr (info, ser), w') \<and>
          new_calls w w' =
            [Call_pcie_Cfg pv la a e m r' c, Call_eth_Cfg es,
             Call_BW_Spec (TLP_bw cfg) (TLP_bw cfg) BW_RAW] @
            concat (map (row_calls cfg (BW_Spec (TLP_bw cfg) (TLP_bw cfg) BW_RAW) ecfg) sweep_sizes) \<and>
          sweep_sizes = [64..1500] \<and> length sweep_sizes = 1437 \<and>
          (\<forall>s\<in>set sweep_sizes.
          (\<exists>x. mem_bw_write M cfg (BW_Spec (TLP_bw cfg) (TLP_bw cfg) BW_RAW) (s - 4) = Inr x) \<and>
          (\<exists>x. mem_bw_read M cfg (BW_Spec (TLP_bw cfg) (TLP_bw cfg) BW_RAW) (s - 4) = Inr x) \<and>
          (\<exists>x. mem_bw_read_write M cfg (BW_Spec (TLP_bw cfg) (TLP_bw cfg) BW_RAW) (s - 4) = Inr x) \<and>
          (\<exists>x. eth_bps_ex M ecfg (s - 4) = Inr x) \<and>
          (\<exists>x. simple_nic_bw M cfg (BW_Spec (TLP_bw cfg) (TLP_bw cfg) BW_RAW) DIR_BOTH (s - 4) = Inr x) \<and>
          (\<exists>x. niantic_bw M cfg (BW_Spec (TLP_bw cfg) (TLP_bw cfg) BW_RAW) DIR_BOTH (s - 4) None = Inr x) \<and>
          (\<exists>x. niantic_bw M cfg (BW_Spec (TLP_bw cfg) (TLP_bw cfg) BW_RAW) DIR_BOTH (s - 4) (Some ''PMD'') = Inr x)) \<and>
          sizes ser = sweep_sizes \<and>
          wr_bw_values ser = map (\<lambda>s. tx_eff (projr (mem_bw_write M cfg (BW_Spec (TLP_bw cfg) (TLP_bw cfg) BW_RAW) (s - 4)))) sweep_sizes \<and>
          rd_bw_values ser = map (\<lambda>s. rx_eff (projr (mem_bw_read M cfg (BW_Spec (TLP_bw cfg) (TLP_bw cfg) BW_RAW) (s - 4)))) sweep_sizes \<and>
          rdwr_bw_values ser = map (\<lambda>s. tx_eff (projr (mem_bw_read_write M cfg (BW_Spec (TLP_bw cfg) (TLP_bw cfg) BW_RAW) (s - 4)))) sweep_sizes \<and>
          eth_bw_values ser = map (\<lambda>s. projr (eth_bps_ex M ecfg (s - 4)) / 1000000000) sweep_sizes \<and>
          simple_nic_bi_values ser = map (\<lambda>s. tx_eff (projr (simple_nic_bw M cfg (BW_Spec (TLP_bw cfg) (TLP_bw cfg) BW_RAW) DIR_BOTH (s - 4)))) sweep_sizes \<and>
          kernel_nic_bi_values ser = map (\<lambda>s. tx_eff (projr (niantic_bw M cfg (BW_Spec (TLP_bw cfg) (TLP_bw cfg) BW_RAW) DIR_BOTH (s - 4) None))) sweep_sizes \<and>
          pmd_nic_bi_values ser = map (\<lambda>s. tx_eff (projr (niantic_bw M cfg (BW_Spec (TLP_bw cfg) (TLP_bw cfg) BW_RAW) DIR_BOTH (s - 4) (Some ''PMD'')))) sweep_sizes \<and>
          length (sizes ser) = 1437 \<and> length (wr_bw_values ser) = 1437 \<and>
          length (rd_bw_values ser) = 1437 \<and> length (rdwr_bw_values ser) = 1437 \<and>
          length (eth_bw_values ser) = 1437 \<and> length (simple_nic_bi_values ser) = 1437 \<and>
          length (kernel_nic_bi_values ser) = 1437 \<and> length (pmd_nic_bi_values ser) = 1437"
proof -
  from run_Inr_full[OF assms] obtain a e m r' c cfg ecfg where
    p: "py_int aw = Inr a" "py_int ec = Inr e" "py_int mp = Inr m" "py_int mr = Inr r'"
      "py_int rc = Inr c" "pcie_Cfg M pv la a e m r' c = Inr cfg" "eth_Cfg M es = Inr ecfg"
    and c: "compute_series M pv la aw ec mp mr rc es w =
       (Inr (config_lines M cfg, series_of M cfg (BW_Spec (TLP_bw cfg) (TLP_bw cfg) BW_RAW) ecfg sweep_sizes), w')"
    and n: "new_calls w w' =
       [Call_pcie_Cfg pv la a e m r' c, Call_eth_Cfg es,
        Call_BW_Spec (TLP_bw cfg) (TLP_bw cfg) BW_RAW] @
       concat (map (row_calls cfg (BW_Spec (TLP_bw cfg) (TLP_bw cfg) BW_RAW) ecfg) sweep_sizes)"
    and ok: "\<forall>s\<in>set sweep_sizes. rows_ok M cfg (BW_Spec (TLP_bw cfg) (TLP_bw cfg) BW_RAW) ecfg s"
    by blast
  let ?ser = "series_of M cfg (BW_Spec (TLP_bw cfg) (TLP_bw cfg) BW_RAW) ecfg sweep_sizes"
  have okx: "\<forall>s\<in>set sweep_sizes.
          (\<exists>x. mem_bw_write M cfg (BW_Spec (TLP_bw cfg) (TLP_bw cfg) BW_RAW) (s - 4) = Inr x) \<and>
          (\<exists>x. mem_bw_read M cfg (BW_Spec (TLP_bw cfg) (TLP_bw cfg) BW_RAW) (s - 4) = Inr x) \<and>
          (\<exists>x. mem_bw_read_write M cfg (BW_Spec (TLP_bw cfg) (TLP_bw cfg) BW_RAW) (s - 4) = Inr x) \<and>
          (\<exists>x. eth_bps_ex M ecfg (s - 4) = Inr x) \<and>
          (\<exists>x. simple_nic_bw M cfg (BW_Spec (TLP_bw cfg) (TLP_bw cfg) BW_RAW) DIR_BOTH (s - 4) = Inr x) \<and>
          (\<exists>x. niantic_bw M cfg (BW_Spec (TLP_bw cfg) (TLP_bw cfg) BW_RAW) DIR_BOTH (s - 4) None = Inr x) \<and>
          (\<exists>x. niantic_bw M cfg (BW_Spec (TLP_bw cfg) (TLP_bw cfg) BW_RAW) DIR_BOTH (s - 4) (Some ''PMD'') = Inr x)"
    using ok rows_okD by blast
  have ser: "sizes ?ser = sweep_sizes"
    "wr_bw_values ?ser = map (\<lambda>s. tx_eff (projr (mem_bw_write M cfg (BW_Spec (TLP_bw cfg) (TLP_bw cfg) BW_RAW) (s - 4)))) sweep_sizes"
    "rd_bw_values ?ser = map (\<lambda>s. rx_eff (projr (mem_bw_read M cfg (BW_Spec (TLP_bw cfg) (TLP_bw cfg) BW_RAW) (s - 4)))) sweep_sizes"
    "rdwr_bw_values ?ser = map (\<lambda>s. tx_eff (projr (mem_bw_read_write M cfg (BW_Spec (TLP_bw cfg) (TLP_bw cfg) BW_RAW) (s - 4)))) sweep_sizes"
    "eth_bw_values ?ser = map (\<lambda>s. projr (eth_bps_ex M ecfg (s - 4)) / 1000000000) sweep_sizes"
    "simple_nic_bi_values ?ser = map (\<lambda>s. tx_eff (projr (simple_nic_bw M cfg (BW_Spec (TLP_bw cfg) (TLP_bw cfg) BW_RAW) DIR_BOTH (s - 4)))) sweep_sizes"
    "kernel_nic_bi_values ?ser = map (\<lambda>s. tx_eff (projr (niantic_bw M cfg (BW_Spec (TLP_bw cfg) (TLP_bw cfg) BW_RAW) DIR_BOTH (s - 4) None))) sweep_sizes"
    "pmd_nic_bi_values ?ser = map (\<lambda>s. tx_eff (projr (niantic_bw M cfg (BW_Spec (TLP_bw cfg) (TLP_bw cfg) BW_RAW) DIR_BOTH (s - 4) (Some ''PMD'')))) sweep_sizes"
    by (simp_all add: series_of_def)
  note len = series_of_lengths[of M cfg "BW_Spec (TLP_bw cfg) (TLP_bw cfg) BW_RAW" ecfg sweep_sizes, unfolded length_sweep_sizes]
  have "sweep_sizes = [64..1500]" by (rule sweep_sizes_def)
  with p c n okx ser len length_sweep_sizes show ?thesis by blast
qed

theorem sweep_once_per_size_witness:
  "\<exists>info ser w'.
     compute_series stub_model ''gen3'' ''x8'' ''64'' ''0'' ''256'' ''512'' ''64'' ''40GigE'' world0
       = (Inr (info, ser), w') \<and>
     sizes ser = sweep_sizes \<and> length (pmd_nic_bi_values ser) = 1437 \<and>
     length (new_calls world0 w') = 3 + 7 * 1437 \<and>
     wr_bw_values ser ! 0 = Some 5"
proof -
  from stub_run obtain out w' where r: "run_pcie_model stub_model ''gen3'' ''x8'' ''64'' ''0'' ''256'' ''512'' ''64'' ''40GigE'' world0 = (Inr out, w')" by blast
  from sweep_once_per_size[OF r] obtain a e m r' c cfg ecfg info ser where
    f: "py_int ''64'' = Inr a" "py_int ''0'' = Inr e" "py_int ''256'' = Inr m"
       "py_int ''512'' = Inr r'" "py_int ''64'' = Inr c"
       "pcie_Cfg stub_model ''gen3'' ''x8'' a e m r' c = Inr cfg"
       "compute_series stub_model ''gen3'' ''x8'' ''64'' ''0'' ''256'' ''512'' ''64'' ''40GigE'' world0
       = (Inr (info, ser), w')"
     "new_calls world0 w' =
       [Call_pcie_Cfg ''gen3'' ''x8'' a e m r' c, Call_eth_Cfg ''40GigE'',
        Call_BW_Spec (TLP_bw cfg) (TLP_bw cfg) BW_RAW] @
       concat (map (row_calls cfg (BW_Spec (TLP_bw cfg) (TLP_bw cfg) BW_RAW) ecfg) sweep_sizes)"
     "sizes ser = sweep_sizes" "length (pmd_nic_bi_values ser) = 1437"
     "wr_bw_values ser = map (\<lambda>s. tx_eff (projr (mem_bw_write stub_model cfg (BW_Spec (TLP_bw cfg) (TLP_bw cfg) BW_RAW) (s - 4)))) sweep_sizes"
    by blast
  from f(8) have l: "length (new_calls world0 w') = 3 + 7 * 1437"
    by (simp add: length_row_calls length_sweep_sizes)
  from f(1-6) have cfg: "cfg = stub_cfg"
    by (simp add: py_int_ui stub_model_def stub_cfg_def split: if_splits)
  have "wr_bw_values ser ! 0 = tx_eff (projr (mem_bw_write stub_model cfg (BW_Spec (TLP_bw cfg) (TLP_bw cfg) BW_RAW) (sweep_sizes ! 0 - 4)))"
    unfolding f(11) by (rule nth_map) (simp add: length_sweep_sizes)
  also have "\<dots> = Some 5"
    by (simp add: cfg nth_sweep_sizes stub_model_def stub_res_def stub_cfg_def BW_Spec_def)
  finally have "wr_bw_values ser ! 0 = Some 5" .
  with f(7,9,10) l show ?thesis by blast
qed

section \<open>Claim C6: the combined transfer against the one-directional ones\<close>

text \<open>
  Claim C6, on the memory transfer model of the specification. For a positive size,
  \<open>read_write\<close> returns a result with both figures set; its transmit-effective figure is
  the one \<open>write\<close> returns and its receive-effective figure is the one \<open>read\<close> returns
  for the same configuration, basis and size.
\<close>

theorem read_write_is_write_and_read:
  assumes "0 < n"
  shows "\<exists>rw wr rd.
     spec_read_write K c b n = Inr rw \<and> spec_write K c b n = Inr wr \<and> spec_read K c b n = Inr rd \<and>
     tx_eff rw = tx_eff wr \<and> rx_eff rw = rx_eff rd \<and> tx_eff rw \<noteq> None \<and> rx_eff rw \<noteq> None"
  using assms by (simp add: spec_read_write_def spec_write_def spec_read_def)

theorem read_write_is_write_and_read_witness:
  "(0::int) < 60 \<and>
   spec_read_write stub_consts stub_cfg (BW_Spec 7 7 BW_RAW) 60 = Inr \<lparr>rx_eff = Some 5, tx_eff = Some 5\<rparr> \<and>
   (\<exists>wr rd.
     spec_write stub_consts stub_cfg (BW_Spec 7 7 BW_RAW) 60 = Inr wr \<and>
     spec_read stub_consts stub_cfg (BW_Spec 7 7 BW_RAW) 60 = Inr rd \<and>
     tx_eff wr = Some 5 \<and> rx_eff rd = Some 5)"
  using read_write_is_write_and_read[of 60 stub_consts stub_cfg "BW_Spec 7 7 BW_RAW"]
  by (simp add: spec_transfers_60)

section \<open>Claim C7: the effect of a run on the files\<close>

text \<open>
  Claim C7, as amended. A run ends after at most \<open>3 + 7 * 1437\<close> calls into the package,
  and the loop over the sizes changes no file. But a run does touch a file: once the five
  conversions and the two configuration constructors have returned, and only then, it
  creates one new empty file whose name ends in \<open>.dat\<close>, at the first proposed path that
  is free, and never removes it, whether or not the loop returns afterwards. A run that
  fails before that point, or that finds no free name, leaves the files as they were. The
  proposed names are used up to the one taken, and nothing else of the world changes
  but the trace. A run that returns has always created the file.
\<close>

theorem one_temporary_file:
  assumes "run_pcie_model M pv la aw ec mp mr rc es w = (r, w')"
  shows "files w' =
           (if reaches_tmpfile M pv la aw ec mp mr rc es
            then (case free_names w ''.dat'' of [] \<Rightarrow> files w
                  | n # rest \<Rightarrow> (files w)(n @ ''.dat'' \<mapsto> []))
            else files w) \<and>
         tmp_names w' =
           (if reaches_tmpfile M pv la aw ec mp mr rc es
            then (case free_names w ''.dat'' of [] \<Rightarrow> [] | n # rest \<Rightarrow> rest)
            else tmp_names w) \<and>
         (\<forall>x. r = Inr x \<longrightarrow> reaches_tmpfile M pv la aw ec mp mr rc es \<and> free_names w ''.dat'' \<noteq> []) \<and>
         length (new_calls w w') \<le> 3 + 7 * 1437 \<and>
         (\<forall>n rest. free_names w ''.dat'' = n # rest \<longrightarrow>
            n \<in> set (tmp_names w) \<and> files w (n @ ''.dat'') = None) \<and>
         (\<forall>c b e szs acc v. files (snd (sweep M c b e szs acc v)) = files v)"
proof -
  have sw: "files (snd (sweep M c b e szs acc v)) = files v" for c b e szs acc v
    using sweep_files[of M c b e szs acc v "fst (sweep M c b e szs acc v)" "snd (sweep M c b e szs acc v)"]
    by simp
  from run_world[OF assms] free_names_fresh sw show ?thesis by blast
qed

theorem one_temporary_file_witness:
  "reaches_tmpfile stub_model ''gen3'' ''x8'' ''64'' ''0'' ''256'' ''512'' ''64'' ''40GigE'' \<and>
   files (snd (run_pcie_model stub_model ''gen3'' ''x8'' ''64'' ''0'' ''256'' ''512'' ''64'' ''40GigE'' world0)) = [''/tmp/tmpa1b2c3d4.dat'' \<mapsto> []] \<and>
   tmp_names (snd (run_pcie_model stub_model ''gen3'' ''x8'' ''64'' ''0'' ''256'' ''512'' ''64'' ''40GigE'' world0)) = [] \<and>
   \<not> reaches_tmpfile stub_model ''gen3'' ''x8'' ''64'' ''0'' ''300'' ''512'' ''64'' ''40GigE'' \<and>
   fst (run_pcie_model stub_model ''gen3'' ''x8'' ''64'' ''0'' ''300'' ''512'' ''64'' ''40GigE'' world0) = Inl ConfigurationError \<and>
   files (snd (run_pcie_model stub_model ''gen3'' ''x8'' ''64'' ''0'' ''300'' ''512'' ''64'' ''40GigE'' world0)) = Map.empty \<and>
   tmp_names (snd (run_pcie_model stub_model ''gen3'' ''x8'' ''64'' ''0'' ''300'' ''512'' ''64'' ''40GigE'' world0)) = [''/tmp/tmpa1b2c3d4'']"
proof -
  let ?run = "run_pcie_model stub_model ''gen3'' ''x8'' ''64'' ''0'' ''256'' ''512'' ''64'' ''40GigE'' world0"
  let ?bad = "run_pcie_model stub_model ''gen3'' ''x8'' ''64'' ''0'' ''300'' ''512'' ''64'' ''40GigE'' world0"
  have 1: "?run = (fst ?run, snd ?run)" by simp
  have 2: "?bad = (fst ?bad, snd ?bad)" by simp
  have e: "fst ?bad = Inl ConfigurationError"
    by (simp add: run_fst compute_series_def bindP_def stub_setup_bad_mps)
  from one_temporary_file[OF 1] one_temporary_file[OF 2] e show ?thesis
    by (simp add: stub_reaches) (simp add: world0_def)
qed

text \<open>
  The claim as stated, that a full sweep run leaves the file system unchanged, fails on the
  run with the default choices of the interface, started with no file at all.
\<close>

theorem filesystem_unchanged_counterexample:
  "files (snd (run_pcie_model stub_model ''gen3'' ''x8'' ''64'' ''0'' ''256'' ''512'' ''64'' ''40GigE''
                 world0)) \<noteq> files world0"
proof -
  let ?run = "run_pcie_model stub_model ''gen3'' ''x8'' ''64'' ''0'' ''256'' ''512'' ''64'' ''40GigE'' world0"
  from stub_run obtain out ser w' where
    r: "?run = (Inr out, w')"
    and "compute_series stub_model ''gen3'' ''x8'' ''64'' ''0'' ''256'' ''512'' ''64'' ''40GigE'' world0
       = (Inr (config_lines stub_model stub_cfg, ser), w')"
    and f: "files w' = [''/tmp/tmpa1b2c3d4.dat'' \<mapsto> []]"
    by blast
  have "[''/tmp/tmpa1b2c3d4.dat'' \<mapsto> ([]::string)] ''/tmp/tmpa1b2c3d4.dat'' \<noteq> Map.empty ''/tmp/tmpa1b2c3d4.dat''"
    by simp
  then have "[''/tmp/tmpa1b2c3d4.dat'' \<mapsto> ([]::string)] \<noteq> Map.empty" by metis
  with r f show ?thesis by (simp add: world0_def)
qed

section \<open>Claim C8: the result of a run is a function of its parameters\<close>

text \<open>
  Claim C8. Two runs with the same parameters that both return, started in any two worlds,
  return the same configuration text, the same figure with its series and the same sampled
  table, and compute the same eight series; the result of the loop body for a size does not
  depend on the world it starts in; and the loop that builds the basis anew in every
  iteration yields the result of the loop that reuses the one basis.
\<close>

theorem deterministic_and_stateless:
  "(\<forall>o1 o2 w1' w2'.
      run_pcie_model M pv la aw ec mp mr rc es w1 = (Inr o1, w1') \<longrightarrow>
      run_pcie_model M pv la aw ec mp mr rc es w2 = (Inr o2, w2') \<longrightarrow> o1 = o2) \<and>
   (\<forall>x1 x2 w1' w2'.
      compute_series M pv la aw ec mp mr rc es w1 = (Inr x1, w1') \<longrightarrow>
      compute_series M pv la aw ec mp mr rc es w2 = (Inr x2, w2') \<longrightarrow> x1 = x2) \<and>
   fst (sweep_body M c b e sz v) = fst (sweep_body M c b e sz v') \<and>
   fst (sweep_recompute M c e szs acc v) =
     fst (sweep M c (BW_Spec (TLP_bw c) (TLP_bw c) BW_RAW) e szs acc v')"
  using run_deterministic[of M pv la aw ec mp mr rc es w1 _ _ w2]
    compute_deterministic[of M pv la aw ec mp mr rc es w1 _ _ w2]
    pure_valD[OF pure_sweep_body, of M c b e sz v v']
    sweep_recompute_eq[of M c e szs acc v v']
  by blast

theorem deterministic_and_stateless_witness:
  "\<exists>o1 o2 w1' w2'.
     run_pcie_model stub_model ''gen3'' ''x8'' ''64'' ''0'' ''256'' ''512'' ''64'' ''40GigE'' world0
       = (Inr o1, w1') \<and>
     run_pcie_model stub_model ''gen3'' ''x8'' ''64'' ''0'' ''256'' ''512'' ''64'' ''40GigE'' world1
       = (Inr o2, w2') \<and> o1 = o2 \<and> world0 \<noteq> world1"
proof -
  from stub_run obtain o1 w1' where
    1: "run_pcie_model stub_model ''gen3'' ''x8'' ''64'' ''0'' ''256'' ''512'' ''64'' ''40GigE'' world0
       = (Inr o1, w1')" by blast
  from stub_run1 obtain o2 w2' where
    2: "run_pcie_model stub_model ''gen3'' ''x8'' ''64'' ''0'' ''256'' ''512'' ''64'' ''40GigE'' world1
       = (Inr o2, w2')" by blast
  from deterministic_and_stateless[of stub_model "''gen3''" "''x8''" "''64''" "''0''" "''256''"
      "''512''" "''64''" "''40GigE''" world0 world1] 1 2
  have "o1 = o2" by blast
  moreover have "world0 \<noteq> world1" by (simp add: world0_def world1_def)
  ultimately show ?thesis using 1 2 by blast
qed

section \<open>Claim C9: exceptions of the package leave the driver unchanged\<close>

text \<open>
  Claim C9. If any call the driver made into the package raised an exception \<open>e\<close>, be
  it a constructor or a per-size function, then that call is the last one the driver made
  (nothing is retried, nothing follows) and the result of the run is the exception \<open>e\<close>
  itself, not a configuration text, figure or table.
\<close>

theorem errors_propagate_unchanged:
  assumes "run_pcie_model M pv la aw ec mp mr rc es w = (r, w')"
    and "i < length (new_calls w w')"
    and "outcome M (new_calls w w' ! i) = Some e"
  shows "Suc i = length (new_calls w w') \<and> r = Inl e"
proof -
  from stepsD[OF steps_run assms(1)] obtain evs where
    evs: "calls w' = calls w @ evs" "trace_ok M evs (raised r)" by blast
  from evs(1) have n: "new_calls w w' = evs" by (rule new_calls_append)
  with assms(2,3) evs(2) have "Suc i = length evs \<and> raised r = Some e"
    by (simp add: trace_ok_def)
  with n show ?thesis by (cases r) (simp_all add: raised_def)
qed

theorem errors_propagate_unchanged_witness:
  "fst (run_pcie_model stub_model ''gen3'' ''x8'' ''64'' ''0'' ''300'' ''512'' ''64'' ''40GigE'' world0)
     = Inl ConfigurationError \<and>
   new_calls world0
     (snd (run_pcie_model stub_model ''gen3'' ''x8'' ''64'' ''0'' ''300'' ''512'' ''64'' ''40GigE'' world0))
     = [Call_pcie_Cfg ''gen3'' ''x8'' 64 0 300 512 64]"
proof -
  let ?run = "run_pcie_model stub_model ''gen3'' ''x8'' ''64'' ''0'' ''300'' ''512'' ''64'' ''40GigE'' world0"
  have w: "snd ?run = world0\<lparr>calls := [Call_pcie_Cfg ''gen3'' ''x8'' 64 0 300 512 64]\<rparr>"
    by (simp add: run_snd compute_series_def bindP_def stub_setup_bad_mps)
  then have n: "new_calls world0 (snd ?run) = [Call_pcie_Cfg ''gen3'' ''x8'' 64 0 300 512 64]"
    by (simp add: new_calls_def world0_def)
  have 1: "?run = (fst ?run, snd ?run)" by simp
  have 2: "0 < length (new_calls world0 (snd ?run))" by (simp add: n)
  have "outcome stub_model (Call_pcie_Cfg ''gen3'' ''x8'' 64 0 300 512 64) = Some ConfigurationError"
    by (simp add: stub_model_def raised_def)
  then have 3: "outcome stub_model (new_calls world0 (snd ?run) ! 0) = Some ConfigurationError"
    by (simp only: n nth_Cons_0)
  from errors_propagate_unchanged[OF 1 2 3] n show ?thesis by simp
qed

section \<open>Claim C10: the sampled table\<close>




end
